theory Spec2Isabelle
  imports Complex_Main "HOL-Library.Char_ord" "HOL-Library.List_Lexorder" "HOL-Library.Multiset"
    "HOL-Library.Word"
begin

section \<open>Source positions and the type system of literal shapes\<close>

text \<open>
  Positions and ranges are those of the parser library: a position is a line, a column
  and a byte offset (Go \<open>int\<close>; only compared, never computed with, so \<open>int\<close> here),
  a range is a file name with a start and an end position.
\<close>

record Pos =
  Line :: int
  Column :: int
  Byte :: int

record Range =
  Filename :: string
  Start :: Pos
  End :: Pos

text \<open>
  \<open>Range.ContainsPos\<close> of the parser library: the byte offset of the position lies in
  the half-open interval of the range.
\<close>

definition ContainsPos :: "Range \<Rightarrow> Pos \<Rightarrow> bool" where
  "ContainsPos r pos \<longleftrightarrow> Byte (Start r) \<le> Byte pos \<and> Byte pos < Byte (End r)"

text \<open>
  The types of the value library (\<open>cty.Type\<close>). \<open>cty_NilType\<close> is the zero value of
  the Go struct, \<open>cty_Capsule\<close> an opaque type. The attribute map of an object type is an
  association list from attribute names to types (a Go map: names do not repeat).
  Type equality (\<open>Equals\<close>, and \<open>==\<close> on the primitive types) is equality of these terms.
\<close>

datatype cty_type =
    cty_NilType
  | cty_String
  | cty_Bool
  | cty_Number
  | cty_DynamicPseudoType
  | cty_List cty_type
  | cty_Set cty_type
  | cty_Map cty_type
  | cty_Tuple "cty_type list"
  | cty_Object "(string \<times> cty_type) list"
  | cty_Capsule string

fun IsPrimitiveType :: "cty_type \<Rightarrow> bool" where
  "IsPrimitiveType cty_String = True"
| "IsPrimitiveType cty_Bool = True"
| "IsPrimitiveType cty_Number = True"
| "IsPrimitiveType _ = False"

fun IsListType :: "cty_type \<Rightarrow> bool" where
  "IsListType (cty_List _) = True"
| "IsListType _ = False"

fun IsSetType :: "cty_type \<Rightarrow> bool" where
  "IsSetType (cty_Set _) = True"
| "IsSetType _ = False"

fun IsMapType :: "cty_type \<Rightarrow> bool" where
  "IsMapType (cty_Map _) = True"
| "IsMapType _ = False"

fun IsTupleType :: "cty_type \<Rightarrow> bool" where
  "IsTupleType (cty_Tuple _) = True"
| "IsTupleType _ = False"

fun IsObjectType :: "cty_type \<Rightarrow> bool" where
  "IsObjectType (cty_Object _) = True"
| "IsObjectType _ = False"

text \<open>
  The values a literal expression node carries: a known primitive, a null of some type
  or an unknown of some type (\<open>cty.DynamicVal\<close> is \<open>UnknownVal cty_DynamicPseudoType\<close>,
  the placeholder the parser leaves where an expression is missing).
\<close>

datatype cty_value =
    UnknownVal cty_type
  | NullVal cty_type
  | StringVal string
  | BoolVal bool
  | NumberVal rat

fun TypeOf :: "cty_value \<Rightarrow> cty_type" where
  "TypeOf (UnknownVal t) = t"
| "TypeOf (NullVal t) = t"
| "TypeOf (StringVal _) = cty_String"
| "TypeOf (BoolVal _) = cty_Bool"
| "TypeOf (NumberVal _) = cty_Number"

fun IsWhollyKnown :: "cty_value \<Rightarrow> bool" where
  "IsWhollyKnown (UnknownVal _) = False"
| "IsWhollyKnown _ = True"

text \<open>
  Errors are values. \<open>ErrorString\<close> is an error made by \<open>fmt.Errorf\<close>,
  \<open>RuntimePanic\<close> stands for a Go panic (an accessor of the value
  library used on a value or type it does not accept, an index out of range, a nil
  dereference).
\<close>

datatype error =
    NoSchemaError
  | FileNotFoundError string
  | UnknownFileFormatError string
  | PositionalError string Pos string
  | ErrorString string
  | RuntimePanic string

fun AsString :: "cty_value \<Rightarrow> error + string" where
  "AsString (StringVal s) = Inr s"
| "AsString _ = Inl (RuntimePanic ''AsString'')"

fun True_of :: "cty_value \<Rightarrow> error + bool" where
  "True_of (BoolVal b) = Inr b"
| "True_of _ = Inl (RuntimePanic ''True'')"

fun AsBigFloat :: "cty_value \<Rightarrow> error + rat" where
  "AsBigFloat (NumberVal r) = Inr r"
| "AsBigFloat _ = Inl (RuntimePanic ''AsBigFloat'')"

text \<open>
  The formatting functions of the value library and of Go's \<open>fmt\<close> that the program
  calls are parameters: the friendly name of a type, \<open>%q\<close> of a string, \<open>%f\<close> of the
  \<open>float64\<close> nearest to a number, and \<open>big.Float.String\<close>.
\<close>

record cty_ext =
  FriendlyName :: "cty_type \<Rightarrow> string"
  Quote :: "string \<Rightarrow> string"
  FormatFloat :: "rat \<Rightarrow> string"
  BigFloatString :: "rat \<Rightarrow> string"

abbreviation NL :: string where "NL \<equiv> [CHR 0x0A]"

abbreviation DQ :: string where "DQ \<equiv> [CHR 0x22]"

definition digit :: "nat \<Rightarrow> char" where
  "digit d = char_of (48 + d)"

text \<open>\<open>%d\<close> of a natural number and of an integer.\<close>

function show_nat :: "nat \<Rightarrow> string" where
  "show_nat n = (if n < 10 then [digit n] else show_nat (n div 10) @ [digit (n mod 10)])"
  by pat_completeness auto

termination
  by (relation "measure id") auto

declare show_nat.simps [simp del]

definition show_int :: "int \<Rightarrow> string" where
  "show_int i = (if i < 0 then CHR ''-'' # show_nat (nat (- i)) else show_nat (nat i))"

text \<open>\<open>%t\<close> of a boolean.\<close>

definition show_bool :: "bool \<Rightarrow> string" where
  "show_bool b = (if b then ''true'' else ''false'')"

text \<open>
  \<open>big.Float.IsInt\<close> and \<open>big.Float.Int64\<close>: the latter saturates at the bounds of
  \<open>int64\<close> (it is only called on integral numbers).
\<close>

definition IsInt :: "rat \<Rightarrow> bool" where
  "IsInt r \<longleftrightarrow> r = of_int \<lfloor>r\<rfloor>"

definition Int64 :: "rat \<Rightarrow> int" where
  "Int64 r = max (- (2 ^ 63)) (min (2 ^ 63 - 1) \<lfloor>r\<rfloor>)"

section \<open>Schema constraints on expressions\<close>

text \<open>
  \<open>ExprConstraint\<close> is a sealed interface with the one implementation
  \<open>LiteralTypeExpr\<close>; \<open>OtherConstraint\<close> stands for a value on which the type
  assertion \<open>c.(schema.LiteralTypeExpr)\<close> fails.
\<close>

datatype ExprConstraint =
    LiteralTypeExpr cty_type
  | OtherConstraint

type_synonym ExprConstraints = "ExprConstraint list"

fun LiteralValueTypes :: "ExprConstraints \<Rightarrow> cty_type list" where
  "LiteralValueTypes [] = []"
| "LiteralValueTypes (LiteralTypeExpr t # ec) = t # LiteralValueTypes ec"
| "LiteralValueTypes (OtherConstraint # ec) = LiteralValueTypes ec"

definition LiteralTypeOnly :: "cty_type \<Rightarrow> ExprConstraints" where
  "LiteralTypeOnly t = [LiteralTypeExpr t]"

section \<open>Candidate generator\<close>

datatype MarkupKind = NilKind | PlainTextKind | MarkdownKind

record MarkupContent =
  mc_Kind :: MarkupKind
  mc_Value :: string

definition PlainText :: "string \<Rightarrow> MarkupContent" where
  "PlainText s = \<lparr>mc_Kind = PlainTextKind, mc_Value = s\<rparr>"

definition Markdown :: "string \<Rightarrow> MarkupContent" where
  "Markdown s = \<lparr>mc_Kind = MarkdownKind, mc_Value = s\<rparr>"

text \<open>The zero value \<open>lang.MarkupContent{}\<close>.\<close>

definition NoMarkup :: MarkupContent where
  "NoMarkup = \<lparr>mc_Kind = NilKind, mc_Value = []\<rparr>"

datatype CandidateKind = NilCandidateKind | LiteralValueCandidateKind

record TextEdit =
  te_NewText :: string
  te_Snippet :: string
  te_Range :: Range

record Candidate =
  cand_Label :: string
  cand_Detail :: string
  cand_Description :: MarkupContent
  cand_Kind :: CandidateKind
  cand_TextEdit :: TextEdit

record Candidates =
  cands_List :: "Candidate list"
  cands_IsComplete :: bool

text \<open>
  Modelled from the spec: \<open>lang.NewCandidates\<close> and \<open>lang.ZeroCandidates\<close> are not
  under src. Both hold the empty candidate list; the first is the list still to be
  filled, the second the finished answer "nothing to offer".
\<close>

definition NewCandidates :: Candidates where
  "NewCandidates = \<lparr>cands_List = [], cands_IsComplete = False\<rparr>"

definition ZeroCandidates :: Candidates where
  "ZeroCandidates = \<lparr>cands_List = [], cands_IsComplete = True\<rparr>"

text \<open>
  Modelled from the spec: \<open>sortedObjectAttrNames\<close> is not under src. It lists the
  attribute names of an object type in ascending order; the program then looks each
  name up again with \<open>AttributeType\<close>. Here the names come with their types.
\<close>

definition sortedObjectAttrs :: "(string \<times> cty_type) list \<Rightarrow> (string \<times> cty_type) list" where
  "sortedObjectAttrs attrs = sort_key fst attrs"

lemma set_sortedObjectAttrs [simp]: "set (sortedObjectAttrs attrs) = set attrs"
  by (simp add: sortedObjectAttrs_def)

lemma size_attr_less:
  "(n, t) \<in> set attrs \<Longrightarrow> size t < Suc (size_list (size_prod (\<lambda>x. 0) size) attrs)"
  by (induction attrs) auto

lemma size_elem_less:
  "t \<in> set ts \<Longrightarrow> size (t :: cty_type) < size_list size ts"
  by (induction ts) auto

function newTextForType :: "cty_type \<Rightarrow> string" where
  "newTextForType cty_String = DQ @ DQ"
| "newTextForType cty_Bool = ''false''"
| "newTextForType cty_Number = ''1''"
| "newTextForType cty_DynamicPseudoType = []"
| "newTextForType (cty_Map elType) =
     ''{'' @ NL @ ''  '' @ DQ @ ''key'' @ DQ @ '' = '' @ newTextForType elType @ NL @ ''}''"
| "newTextForType (cty_List elType) = ''[ '' @ newTextForType elType @ '' ]''"
| "newTextForType (cty_Set elType) = ''[ '' @ newTextForType elType @ '' ]''"
| "newTextForType (cty_Object attrs) =
     ''{'' @ NL @
     concat (map (\<lambda>(name, valType). ''  '' @ name @ '' = '' @ newTextForType valType @ NL)
                 (sortedObjectAttrs attrs)) @ ''}''"
| "newTextForType (cty_Tuple elTypes) =
     (case elTypes of
        [elType] \<Rightarrow> ''[ '' @ newTextForType elType @ '' ]''
      | _ \<Rightarrow> ''['' @ NL @ concat (map newTextForType elTypes) @ '']'')"
| "newTextForType cty_NilType = []"
| "newTextForType (cty_Capsule _) = []"
  by pat_completeness auto

termination
  by (relation "measure size") (auto simp: size_attr_less dest: size_elem_less)

text \<open>The bytes that stand between the second member and the closing brace in the label of
  an object type with more than two attributes, as the source file has them.\<close>

definition ellipsis :: string where
  "ellipsis = map char_of [0xC3, 0xA2, 0xE2, 0x82, 0xAC, 0xC2, 0xA6 :: nat]"

lemma sortedObjectAttrs_hd: "sortedObjectAttrs attrs = x # xs \<Longrightarrow> x \<in> set attrs"
  by (metis list.set_intros(1) set_sortedObjectAttrs)

lemma sortedObjectAttrs_hd2: "sortedObjectAttrs attrs = x # y # xs \<Longrightarrow> y \<in> set attrs"
  by (metis list.set_intros(1) list.set_intros(2) set_sortedObjectAttrs)

function labelForType :: "cty_ext \<Rightarrow> cty_type \<Rightarrow> string" where
  "labelForType X (cty_Map elType) =
     ''{ '' @ DQ @ ''key'' @ DQ @ '' = '' @ labelForType X elType @ '' }''"
| "labelForType X (cty_List elType) = ''[ '' @ labelForType X elType @ '' ]''"
| "labelForType X (cty_Set elType) = ''[ '' @ labelForType X elType @ '' ]''"
| "labelForType X (cty_Tuple elTypes) =
     (case elTypes of
        t0 # t1 # _ # _ \<Rightarrow>
          ''[ '' @ labelForType X t0 @ '' , '' @ labelForType X t1 @ '', ... ]''
      | [t0, t1] \<Rightarrow> ''[ '' @ labelForType X t0 @ '' , '' @ labelForType X t1 @ '' ]''
      | [t0] \<Rightarrow> ''[ '' @ labelForType X t0 @ '' ]''
      | [] \<Rightarrow> ''[ ]'')"
| "labelForType X (cty_Object attrs) =
     (case sortedObjectAttrs attrs of
        (n0, t0) # (n1, t1) # _ # _ \<Rightarrow>
          ''{ '' @ n0 @ '' = '' @ labelForType X t0 @ '', '' @ n1 @ '' = '' @ labelForType X t1
            @ '' '' @ ellipsis @ '' }''
      | [(n0, t0), (n1, t1)] \<Rightarrow>
          ''{ '' @ n0 @ '' = '' @ labelForType X t0 @ '', '' @ n1 @ '' = '' @ labelForType X t1
            @ '' }''
      | [(n0, t0)] \<Rightarrow> ''{ '' @ n0 @ '' = '' @ labelForType X t0 @ '' }''
      | [] \<Rightarrow> ''{ }'')"
| "labelForType X cty_String = FriendlyName X cty_String"
| "labelForType X cty_Bool = FriendlyName X cty_Bool"
| "labelForType X cty_Number = FriendlyName X cty_Number"
| "labelForType X cty_DynamicPseudoType = FriendlyName X cty_DynamicPseudoType"
| "labelForType X cty_NilType = FriendlyName X cty_NilType"
| "labelForType X (cty_Capsule c) = FriendlyName X (cty_Capsule c)"
  by pat_completeness auto

termination
  apply (relation "measure (\<lambda>(X, t). size t)")
  apply (auto dest: size_elem_less)
  apply (blast intro: size_attr_less dest: sortedObjectAttrs_hd sortedObjectAttrs_hd2)+
  done

lemma size_list_insort_key:
  "size_list f (insort_key k x xs) = Suc (f x + size_list f xs)"
  by (induction xs) auto

lemma size_list_sort_key: "size_list f (sort_key k xs) = size_list f xs"
  by (induction xs) (auto simp: size_list_insort_key)

lemma size_list_snd_le:
  "size_list (\<lambda>p. size (snd p)) xs \<le> size_list (size_prod (\<lambda>x. 0) size) xs"
  by (induction xs) auto

text \<open>The placeholder index is a Go \<open>uint\<close> (64 bits): \<open>+ 1\<close> wraps.\<close>

function snippetForAttrType :: "64 word \<Rightarrow> cty_type \<Rightarrow> string"
  and snippetForObjectAttrs :: "64 word \<Rightarrow> (string \<times> cty_type) list \<Rightarrow> string"
  and snippetForTupleElems :: "64 word \<Rightarrow> cty_type list \<Rightarrow> string"
where
  "snippetForAttrType placeholder cty_String =
     DQ @ ''${'' @ show_nat (unat placeholder) @ '':value}'' @ DQ"
| "snippetForAttrType placeholder cty_Bool = ''${'' @ show_nat (unat placeholder) @ '':false}''"
| "snippetForAttrType placeholder cty_Number = ''${'' @ show_nat (unat placeholder) @ '':1}''"
| "snippetForAttrType placeholder cty_DynamicPseudoType =
     ''${'' @ show_nat (unat placeholder) @ ''}''"
| "snippetForAttrType placeholder (cty_Map elType) =
     ''{'' @ NL @ ''  '' @ DQ @ ''${1:key}'' @ DQ @ '' = ''
       @ snippetForAttrType (placeholder + 1) elType @ NL @ ''}''"
| "snippetForAttrType placeholder (cty_List elType) =
     ''[ '' @ snippetForAttrType placeholder elType @ '' ]''"
| "snippetForAttrType placeholder (cty_Set elType) =
     ''[ '' @ snippetForAttrType placeholder elType @ '' ]''"
| "snippetForAttrType placeholder (cty_Object attrs) =
     ''{'' @ NL @ snippetForObjectAttrs placeholder (sortedObjectAttrs attrs) @ ''}''"
| "snippetForAttrType placeholder (cty_Tuple elTypes) =
     (case elTypes of
        [elType] \<Rightarrow> ''[ '' @ snippetForAttrType placeholder elType @ '' ]''
      | _ \<Rightarrow> ''['' @ NL @ snippetForTupleElems placeholder elTypes @ '']'')"
| "snippetForAttrType placeholder cty_NilType = []"
| "snippetForAttrType placeholder (cty_Capsule _) = []"
| "snippetForObjectAttrs placeholder [] = []"
| "snippetForObjectAttrs placeholder ((name, valType) # rest) =
     ''  '' @ name @ '' = '' @ snippetForAttrType placeholder valType @ NL
       @ snippetForObjectAttrs (placeholder + 1) rest"
| "snippetForTupleElems placeholder [] = []"
| "snippetForTupleElems placeholder (elType # rest) =
     snippetForAttrType (placeholder + 1) elType @ snippetForTupleElems (placeholder + 1) rest"
  by pat_completeness auto

termination
  apply (relation "measure (\<lambda>x. case x of
      Inl (p, t) \<Rightarrow> size t
    | Inr (Inl (p, xs)) \<Rightarrow> size_list (\<lambda>p. size (snd p)) xs
    | Inr (Inr (p, ts)) \<Rightarrow> size_list size ts)")
  apply (auto simp: sortedObjectAttrs_def size_list_sort_key less_Suc_eq_le size_list_snd_le)
  done

section \<open>Expressions and attributes of the parsed document\<close>

text \<open>
  The expression nodes the program distinguishes; \<open>OtherExpr\<close> is any other node kind
  (a reference, a call, an operator ...) with the name of its Go type. An item of an
  object constructor holds the value its key expression evaluates to without a context
  (\<open>KeyExpr.Value(nil)\<close>), the range of the key and the value expression.
\<close>

datatype Expression =
    TemplateExpr "Expression list" Range
  | TemplateWrapExpr Expression Range
  | TupleConsExpr "Expression list" Range
  | ObjectConsExpr "ObjectConsItem list" Range
  | LiteralValueExpr cty_value Range
  | OtherExpr string Range
and ObjectConsItem =
    ObjectConsItem (KeyValue: cty_value) (KeyRange: Range) (ValueExpr: Expression)

fun ExprRange :: "Expression \<Rightarrow> Range" where
  "ExprRange (TemplateExpr _ r) = r"
| "ExprRange (TemplateWrapExpr _ r) = r"
| "ExprRange (TupleConsExpr _ r) = r"
| "ExprRange (ObjectConsExpr _ r) = r"
| "ExprRange (LiteralValueExpr _ r) = r"
| "ExprRange (OtherExpr _ r) = r"

text \<open>\<open>%T\<close> of an expression node.\<close>

fun GoTypeName :: "Expression \<Rightarrow> string" where
  "GoTypeName (TemplateExpr _ _) = ''*hclsyntax.TemplateExpr''"
| "GoTypeName (TemplateWrapExpr _ _) = ''*hclsyntax.TemplateWrapExpr''"
| "GoTypeName (TupleConsExpr _ _) = ''*hclsyntax.TupleConsExpr''"
| "GoTypeName (ObjectConsExpr _ _) = ''*hclsyntax.ObjectConsExpr''"
| "GoTypeName (LiteralValueExpr _ _) = ''*hclsyntax.LiteralValueExpr''"
| "GoTypeName (OtherExpr n _) = n"

record Attribute =
  attr_Name :: string
  attr_Expr :: Expression
  attr_SrcRange :: Range
  attr_NameRange :: Range

record AttributeSchema =
  as_Expr :: ExprConstraints
  as_IsDeprecated :: bool
  as_Description :: MarkupContent

section \<open>Candidates for the value of an attribute\<close>

definition valueToCandidates :: "cty_ext \<Rightarrow> cty_value \<Rightarrow> Range \<Rightarrow> error + Candidate list" where
  "valueToCandidates X val editRng =
     (if TypeOf val = cty_Bool then
        (case True_of val of
           Inl e \<Rightarrow> Inl e
         | Inr b \<Rightarrow> Inr [\<lparr>cand_Label = show_bool b,
                          cand_Detail = FriendlyName X (TypeOf val),
                          cand_Description = PlainText (FriendlyName X (TypeOf val)),
                          cand_Kind = LiteralValueCandidateKind,
                          cand_TextEdit = \<lparr>te_NewText = show_bool b,
                                            te_Snippet = ''${'' @ show_nat 1 @ '':'' @ show_bool b @ ''}'',
                                            te_Range = editRng\<rparr>\<rparr>])
      else if TypeOf val = cty_String then
        (case AsString val of
           Inl e \<Rightarrow> Inl e
         | Inr s \<Rightarrow> Inr [\<lparr>cand_Label = s,
                          cand_Detail = FriendlyName X (TypeOf val),
                          cand_Description = PlainText (FriendlyName X (TypeOf val)),
                          cand_Kind = LiteralValueCandidateKind,
                          cand_TextEdit = \<lparr>te_NewText = Quote X s,
                                            te_Snippet = ''${'' @ show_nat 1 @ '':'' @ Quote X s @ ''}'',
                                            te_Range = editRng\<rparr>\<rparr>])
      else if TypeOf val = cty_Number then
        (case AsBigFloat val of
           Inl e \<Rightarrow> Inl e
         | Inr bf \<Rightarrow>
             (let numberAsStr = (if IsInt bf then show_int (Int64 bf) else FormatFloat X bf)
              in Inr [\<lparr>cand_Label = numberAsStr,
                       cand_Detail = FriendlyName X (TypeOf val),
                       cand_Description = PlainText (FriendlyName X (TypeOf val)),
                       cand_Kind = LiteralValueCandidateKind,
                       cand_TextEdit = \<lparr>te_NewText = numberAsStr,
                                         te_Snippet = ''${'' @ show_nat 1 @ '':'' @ numberAsStr @ ''}'',
                                         te_Range = editRng\<rparr>\<rparr>]))
      else Inr [])"

fun valuesToCandidates :: "cty_ext \<Rightarrow> cty_value list \<Rightarrow> Range \<Rightarrow> error + Candidate list" where
  "valuesToCandidates X [] editRng = Inr []"
| "valuesToCandidates X (val # vals) editRng =
     (case valueToCandidates X val editRng of
        Inl e \<Rightarrow> Inl e
      | Inr c \<Rightarrow>
          (case valuesToCandidates X vals editRng of
             Inl e \<Rightarrow> Inl e
           | Inr cs \<Rightarrow> Inr (c @ cs)))"

definition typeToCandidates :: "cty_ext \<Rightarrow> cty_type \<Rightarrow> Range \<Rightarrow> error + Candidate list" where
  "typeToCandidates X ofType editRng =
     (if ofType = cty_Bool then valuesToCandidates X [BoolVal False, BoolVal True] editRng
      else if IsPrimitiveType ofType then Inr []
      else Inr [\<lparr>cand_Label = labelForType X ofType,
                 cand_Detail = FriendlyName X ofType,
                 cand_Description = NoMarkup,
                 cand_Kind = LiteralValueCandidateKind,
                 cand_TextEdit = \<lparr>te_NewText = newTextForType ofType,
                                   te_Snippet = snippetForAttrType 1 ofType,
                                   te_Range = editRng\<rparr>\<rparr>])"

fun constraintToCandidates :: "cty_ext \<Rightarrow> ExprConstraint \<Rightarrow> Range \<Rightarrow> error + Candidate list" where
  "constraintToCandidates X (LiteralTypeExpr t) editRng = typeToCandidates X t editRng"
| "constraintToCandidates X OtherConstraint editRng = Inr []"

text \<open>The loop of \<open>expressionCandidatesAtPos\<close>, appending to the list so far.\<close>

fun appendCandidates ::
  "cty_ext \<Rightarrow> Candidate list \<Rightarrow> ExprConstraints \<Rightarrow> Range \<Rightarrow> error + Candidate list" where
  "appendCandidates X acc [] editRng = Inr acc"
| "appendCandidates X acc (c # constraints) editRng =
     (case constraintToCandidates X c editRng of
        Inl e \<Rightarrow> Inl e
      | Inr cs \<Rightarrow> appendCandidates X (acc @ cs) constraints editRng)"

definition expressionCandidatesAtPos :: "cty_ext \<Rightarrow> ExprConstraints \<Rightarrow> Range \<Rightarrow> error + Candidates" where
  "expressionCandidatesAtPos X constraints editRng =
     (case appendCandidates X (cands_List NewCandidates) constraints editRng of
        Inl e \<Rightarrow> Inl e
      | Inr cs \<Rightarrow> Inr \<lparr>cands_List = cs, cands_IsComplete = True\<rparr>)"

definition collapsed :: "Range \<Rightarrow> Range" where
  "collapsed r = \<lparr>Filename = Filename r, Start = Start r, End = Start r\<rparr>"

fun constraintsAtPos :: "Expression \<Rightarrow> ExprConstraints \<Rightarrow> ExprConstraints \<times> Range" where
  "constraintsAtPos (LiteralValueExpr val r) constraints =
     (if \<not> IsWhollyKnown val then (constraints, collapsed r)
      else ([], ExprRange (LiteralValueExpr val r)))"
| "constraintsAtPos expr constraints = ([], ExprRange expr)"

definition attrValueCandidatesAtPos ::
  "cty_ext \<Rightarrow> Attribute \<Rightarrow> AttributeSchema \<Rightarrow> Pos \<Rightarrow> error + Candidates" where
  "attrValueCandidatesAtPos X attr schema pos =
     (case constraintsAtPos (attr_Expr attr) (as_Expr schema) of
        (constraints, rng) \<Rightarrow>
          if length constraints > 0 then expressionCandidatesAtPos X constraints rng
          else Inr ZeroCandidates)"

section \<open>Schema and document\<close>

record LabelSchema =
  ls_Name :: string
  ls_Description :: MarkupContent
  ls_IsDepKey :: bool

record DocsLink =
  dl_URL :: string

text \<open>
  The key of the table of dependent body schemas is the canonical serialisation of a set
  of dependency keys (a string in the program).
\<close>

type_synonym SchemaKey = string

text \<open>Go maps are association lists, looked up with \<open>map_of\<close>.\<close>

datatype BodySchema =
    BodySchema (bs_Attributes: "(string \<times> AttributeSchema) list")
               (bs_Blocks: "(string \<times> BlockSchema) list")
               (bs_AnyAttribute: "AttributeSchema option")
               (bs_Detail: string)
               (bs_Description: MarkupContent)
               (bs_DocsLink: "DocsLink option")
and BlockSchema =
    BlockSchema (bl_Labels: "LabelSchema list")
                (bl_Body: "BodySchema option")
                (bl_DependentBody: "(SchemaKey \<times> BodySchema) list")
                (bl_IsDeprecated: bool)
                (bl_Description: MarkupContent)

text \<open>
  The syntax tree of the parser library: a body holds its attributes by name and its
  blocks in order; the body of a block is a pointer and may be nil.
\<close>

datatype Body =
    Body (body_Attributes: "(string \<times> Attribute) list")
         (body_Blocks: "Block list")
         (body_SrcRange: Range)
and Block =
    Block (blk_Type: string)
          (blk_Labels: "string list")
          (blk_Body: "Body option")
          (blk_TypeRange: Range)
          (blk_LabelRanges: "Range list")
          (blk_OpenBraceRange: Range)
          (blk_CloseBraceRange: Range)

text \<open>\<open>hcl.RangeBetween\<close> and \<open>Block.Range\<close> of the parser library.\<close>

definition RangeBetween :: "Range \<Rightarrow> Range \<Rightarrow> Range" where
  "RangeBetween a b = \<lparr>Filename = Filename a, Start = Start a, End = End b\<rparr>"

definition BlockRange :: "Block \<Rightarrow> Range" where
  "BlockRange b = RangeBetween (blk_TypeRange b) (blk_CloseBraceRange b)"

record LabelDependent =
  ld_Index :: nat
  ld_Value :: string

record DependencyKeys =
  dk_Labels :: "LabelDependent list"

text \<open>
  The functions of the decoder that are not under src, and \<open>strings.TrimSpace\<close>, are
  parameters. \<open>docsURL\<close> gives the host name and the text of the resolved URL, or
  nothing when it fails.
\<close>

record decoder_ext =
  detailForAttribute :: "AttributeSchema \<Rightarrow> string"
  detailForBlock :: "BlockSchema \<Rightarrow> string"
  docsURL :: "string \<Rightarrow> string \<Rightarrow> (string \<times> string) option"
  isPosOutsideBody :: "Block \<Rightarrow> Pos \<Rightarrow> bool"
  mergeBlockBodySchemas :: "Block \<Rightarrow> BlockSchema \<Rightarrow> error + BodySchema option"
  dependencyKeysFromBlock :: "Block \<Rightarrow> BlockSchema \<Rightarrow> DependencyKeys"
  DependentBodySchema :: "BlockSchema \<Rightarrow> DependencyKeys \<Rightarrow> BodySchema option"
  TrimSpace :: "string \<Rightarrow> string"

section \<open>Expression constraint engine\<close>

text \<open>
  Each of the following loops returns the first \<open>LiteralTypeExpr\<close> of the constraints
  whose type has the shape asked for: \<open>Some t\<close> is \<open>(LiteralTypeExpr{Type: t}, true)\<close>,
  \<open>None\<close> is \<open>(LiteralTypeExpr{}, false)\<close>.
\<close>

fun listTypeLiteralConstraint :: "ExprConstraints \<Rightarrow> cty_type option" where
  "listTypeLiteralConstraint [] = None"
| "listTypeLiteralConstraint (LiteralTypeExpr t # constraints) =
     (if IsListType t then Some t else listTypeLiteralConstraint constraints)"
| "listTypeLiteralConstraint (OtherConstraint # constraints) = listTypeLiteralConstraint constraints"

fun setTypeLiteralConstraint :: "ExprConstraints \<Rightarrow> cty_type option" where
  "setTypeLiteralConstraint [] = None"
| "setTypeLiteralConstraint (LiteralTypeExpr t # constraints) =
     (if IsSetType t then Some t else setTypeLiteralConstraint constraints)"
| "setTypeLiteralConstraint (OtherConstraint # constraints) = setTypeLiteralConstraint constraints"

fun tupleTypeLiteralConstraint :: "ExprConstraints \<Rightarrow> cty_type option" where
  "tupleTypeLiteralConstraint [] = None"
| "tupleTypeLiteralConstraint (LiteralTypeExpr t # constraints) =
     (if IsTupleType t then Some t else tupleTypeLiteralConstraint constraints)"
| "tupleTypeLiteralConstraint (OtherConstraint # constraints) = tupleTypeLiteralConstraint constraints"

fun objectTypeLiteralConstraint :: "ExprConstraints \<Rightarrow> cty_type option" where
  "objectTypeLiteralConstraint [] = None"
| "objectTypeLiteralConstraint (LiteralTypeExpr t # constraints) =
     (if IsObjectType t then Some t else objectTypeLiteralConstraint constraints)"
| "objectTypeLiteralConstraint (OtherConstraint # constraints) = objectTypeLiteralConstraint constraints"

fun mapTypeLiteralConstraint :: "ExprConstraints \<Rightarrow> cty_type option" where
  "mapTypeLiteralConstraint [] = None"
| "mapTypeLiteralConstraint (LiteralTypeExpr t # constraints) =
     (if IsMapType t then Some t else mapTypeLiteralConstraint constraints)"
| "mapTypeLiteralConstraint (OtherConstraint # constraints) = mapTypeLiteralConstraint constraints"

fun literalExprForType :: "cty_type \<Rightarrow> ExprConstraints \<Rightarrow> cty_type option" where
  "literalExprForType exprType [] = None"
| "literalExprForType exprType (LiteralTypeExpr t # constraints) =
     (if t = exprType then Some t else literalExprForType exprType constraints)"
| "literalExprForType exprType (OtherConstraint # constraints) =
     literalExprForType exprType constraints"

section \<open>Hover\<close>

record HoverData =
  hd_Content :: MarkupContent
  hd_Range :: Range

fun objectAttrLines :: "cty_ext \<Rightarrow> (string \<times> cty_type) list \<Rightarrow> string" where
  "objectAttrLines X [] = []"
| "objectAttrLines X ((name, valType) # rest) =
     ''  '' @ name @ '' = '' @ FriendlyName X valType @ NL @ objectAttrLines X rest"

definition hoverContentForValueAndType ::
  "cty_ext \<Rightarrow> cty_value \<Rightarrow> cty_type \<Rightarrow> error + MarkupContent" where
  "hoverContentForValueAndType X val t =
     (if IsPrimitiveType t then
        (case (if t = cty_String then
                 (case AsString val of Inl e \<Rightarrow> Inl e | Inr s \<Rightarrow> Inr (''`'' @ s @ ''`''))
               else if t = cty_Bool then
                 (case True_of val of Inl e \<Rightarrow> Inl e | Inr b \<Rightarrow> Inr (''`'' @ show_bool b @ ''`''))
               else
                 (case AsBigFloat val of
                    Inl e \<Rightarrow> Inl e
                  | Inr bf \<Rightarrow> Inr (''`'' @ BigFloatString X bf @ ''`''))) of
           Inl e \<Rightarrow> Inl e
         | Inr value \<Rightarrow> Inr (Markdown (value @ '' _'' @ FriendlyName X t @ ''_'')))
      else (case t of
        cty_Object attrs \<Rightarrow>
          (if sortedObjectAttrs attrs = [] then Inr (Markdown (FriendlyName X t))
           else Inr (Markdown (''```'' @ NL @ ''{'' @ NL
                       @ objectAttrLines X (sortedObjectAttrs attrs)
                       @ ''}'' @ NL @ ''```'' @ NL @ ''_object_'')))
      | _ \<Rightarrow>
          (if IsMapType t \<or> IsListType t \<or> IsSetType t \<or> IsTupleType t
           then Inr (Markdown (''_'' @ FriendlyName X t @ ''_''))
           else Inl (ErrorString (''unsupported type: '' @ Quote X (FriendlyName X t))))))"

definition unsupportedExpression :: "Expression \<Rightarrow> error" where
  "unsupportedExpression expr = ErrorString (''unsupported expression ('' @ GoTypeName expr @ '')'')"

fun hoverContentForExpr :: "cty_ext \<Rightarrow> Expression \<Rightarrow> ExprConstraints \<Rightarrow> error + MarkupContent" where
  "hoverContentForExpr X (TemplateExpr [part] r) constraints =
     hoverContentForExpr X part constraints"
| "hoverContentForExpr X (TemplateExpr parts r) constraints =
     Inl (unsupportedExpression (TemplateExpr parts r))"
| "hoverContentForExpr X (TemplateWrapExpr wrapped r) constraints =
     hoverContentForExpr X wrapped constraints"
| "hoverContentForExpr X (TupleConsExpr exprs r) constraints =
     (case listTypeLiteralConstraint constraints of
        Some t \<Rightarrow> hoverContentForValueAndType X (NullVal t) t
      | None \<Rightarrow>
     (case setTypeLiteralConstraint constraints of
        Some t \<Rightarrow> hoverContentForValueAndType X (NullVal t) t
      | None \<Rightarrow>
     (case tupleTypeLiteralConstraint constraints of
        Some t \<Rightarrow> hoverContentForValueAndType X (NullVal t) t
      | None \<Rightarrow> Inl (unsupportedExpression (TupleConsExpr exprs r)))))"
| "hoverContentForExpr X (ObjectConsExpr items r) constraints =
     (case objectTypeLiteralConstraint constraints of
        Some t \<Rightarrow> hoverContentForValueAndType X (NullVal t) t
      | None \<Rightarrow>
     (case mapTypeLiteralConstraint constraints of
        Some t \<Rightarrow> hoverContentForValueAndType X (NullVal t) t
      | None \<Rightarrow> Inl (unsupportedExpression (ObjectConsExpr items r))))"
| "hoverContentForExpr X (LiteralValueExpr val r) constraints =
     (case literalExprForType (TypeOf val) constraints of
        None \<Rightarrow> Inl (ErrorString (''no schema for literal type ''
                                   @ Quote X (FriendlyName X (TypeOf val))))
      | Some t \<Rightarrow> hoverContentForValueAndType X val t)"
| "hoverContentForExpr X (OtherExpr n r) constraints =
     Inl (unsupportedExpression (OtherExpr n r))"

definition hoverContentForAttribute ::
  "decoder_ext \<Rightarrow> string \<Rightarrow> AttributeSchema \<Rightarrow> MarkupContent" where
  "hoverContentForAttribute D name schema =
     Markdown (''**'' @ name @ ''** _'' @ detailForAttribute D schema @ ''_''
       @ (if mc_Value (as_Description schema) \<noteq> []
          then NL @ NL @ mc_Value (as_Description schema) else []))"

definition hoverContentForBlock ::
  "decoder_ext \<Rightarrow> string \<Rightarrow> BlockSchema \<Rightarrow> MarkupContent" where
  "hoverContentForBlock D bType schema =
     Markdown (''**'' @ bType @ ''** _'' @ detailForBlock D schema @ ''_''
       @ (if mc_Value (bl_Description schema) \<noteq> []
          then NL @ NL @ mc_Value (bl_Description schema) else []))"

text \<open>
  \<open>hoverContentForLabel\<close> is called with \<open>i < length (bl_Labels bSchema)\<close>; reading
  \<open>block.Labels[i]\<close> panics when the block has fewer labels than label ranges.
\<close>

definition hoverContentForLabel ::
  "decoder_ext \<Rightarrow> cty_ext \<Rightarrow> nat \<Rightarrow> Block \<Rightarrow> BlockSchema \<Rightarrow> error + MarkupContent" where
  "hoverContentForLabel D X i block bSchema =
     (if \<not> i < length (blk_Labels block) \<or> \<not> i < length (bl_Labels bSchema)
      then Inl (RuntimePanic ''index out of range'')
      else
        let value = blk_Labels block ! i;
            labelSchema = bl_Labels bSchema ! i;
            plain =
              (let content = Quote X value
                     @ (if ls_Name labelSchema \<noteq> [] then '' ('' @ ls_Name labelSchema @ '')'' else []);
                   content = TrimSpace D content
               in Markdown (content
                     @ (if mc_Value (ls_Description labelSchema) \<noteq> []
                        then NL @ NL @ mc_Value (ls_Description labelSchema) else [])))
        in if ls_IsDepKey labelSchema then
             (case DependentBodySchema D bSchema (dependencyKeysFromBlock D block bSchema) of
                Some bs \<Rightarrow>
                  Inr (Markdown (''`'' @ value @ ''`''
                    @ (if bs_Detail bs \<noteq> [] then '' '' @ bs_Detail bs
                       else if ls_Name labelSchema \<noteq> [] then '' '' @ ls_Name labelSchema else [])
                    @ (if mc_Value (bs_Description bs) \<noteq> [] then NL @ NL @ mc_Value (bs_Description bs)
                       else if mc_Value (ls_Description labelSchema) \<noteq> []
                       then NL @ NL @ mc_Value (ls_Description labelSchema) else [])
                    @ (case bs_DocsLink bs of
                         None \<Rightarrow> []
                       | Some link \<Rightarrow>
                           (case docsURL D (dl_URL link) ''documentHover'' of
                              None \<Rightarrow> []
                            | Some (hostname, url) \<Rightarrow>
                                NL @ NL @ ''[`'' @ value @ ''` on '' @ hostname @ ''](''
                                  @ url @ '')''))))
              | None \<Rightarrow> Inr plain)
           else Inr plain)"

section \<open>Token classification of expressions\<close>

datatype SemanticTokenType =
    TokenBlockType | TokenBlockLabel | TokenAttrName | TokenString | TokenNumber
  | TokenBool | TokenObjectKey | TokenMapKey

datatype SemanticTokenModifier = TokenModifierDependent | TokenModifierDeprecated

record SemanticToken =
  st_Type :: SemanticTokenType
  st_Modifiers :: "SemanticTokenModifier list"
  st_Range :: Range

definition tokensForLiteralValueExpr :: "Range \<Rightarrow> cty_type \<Rightarrow> SemanticToken list" where
  "tokensForLiteralValueExpr exprRange valType =
     (if valType = cty_Bool then [\<lparr>st_Type = TokenBool, st_Modifiers = [], st_Range = exprRange\<rparr>]
      else if valType = cty_String then [\<lparr>st_Type = TokenString, st_Modifiers = [], st_Range = exprRange\<rparr>]
      else if valType = cty_Number then [\<lparr>st_Type = TokenNumber, st_Modifiers = [], st_Range = exprRange\<rparr>]
      else [])"

fun tokenForTypedExpression :: "Expression \<Rightarrow> cty_type \<Rightarrow> error + SemanticToken list"
  and tokensForObjectConsExpr :: "ObjectConsItem list \<Rightarrow> cty_type \<Rightarrow> error + SemanticToken list"
  and tokensForObjectItems ::
    "ObjectConsItem list \<Rightarrow> (string \<times> cty_type) list \<Rightarrow> error + SemanticToken list"
  and tokensForMapItems :: "ObjectConsItem list \<Rightarrow> cty_type \<Rightarrow> error + SemanticToken list"
  and tokensForTupleConsExpr :: "Expression list \<Rightarrow> cty_type \<Rightarrow> error + SemanticToken list"
  and tokensForTupleElems :: "nat \<Rightarrow> Expression list \<Rightarrow> cty_type \<Rightarrow> error + SemanticToken list"
where
  "tokenForTypedExpression (LiteralValueExpr val r) valType =
     (if IsPrimitiveType valType then Inr (tokensForLiteralValueExpr r valType) else Inr [])"
| "tokenForTypedExpression (ObjectConsExpr items r) valType = tokensForObjectConsExpr items valType"
| "tokenForTypedExpression (TupleConsExpr exprs r) valType = tokensForTupleConsExpr exprs valType"
| "tokenForTypedExpression (TemplateExpr parts r) valType = Inr []"
| "tokenForTypedExpression (TemplateWrapExpr wrapped r) valType = Inr []"
| "tokenForTypedExpression (OtherExpr n r) valType = Inr []"
| "tokensForObjectConsExpr items exprType =
     (case exprType of
        cty_Object attrTypes \<Rightarrow> tokensForObjectItems items attrTypes
      | cty_Map elemType \<Rightarrow> tokensForMapItems items elemType
      | _ \<Rightarrow> Inr [])"
| "tokensForObjectItems [] attrTypes = Inr []"
| "tokensForObjectItems (ObjectConsItem key keyRange valueExpr # rest) attrTypes =
     (if IsWhollyKnown key \<and> TypeOf key = cty_String then
        (case AsString key of
           Inl e \<Rightarrow> Inl e
         | Inr k \<Rightarrow>
             (case map_of attrTypes k of
                None \<Rightarrow> tokensForObjectItems rest attrTypes
              | Some valType \<Rightarrow>
                  (case tokenForTypedExpression valueExpr valType of
                     Inl e \<Rightarrow> Inl e
                   | Inr vts \<Rightarrow>
                       (case tokensForObjectItems rest attrTypes of
                          Inl e \<Rightarrow> Inl e
                        | Inr ts \<Rightarrow>
                            Inr (\<lparr>st_Type = TokenObjectKey, st_Modifiers = [], st_Range = keyRange\<rparr>
                                 # vts @ ts)))))
      else tokensForObjectItems rest attrTypes)"
| "tokensForMapItems [] elemType = Inr []"
| "tokensForMapItems (ObjectConsItem key keyRange valueExpr # rest) elemType =
     (case tokenForTypedExpression valueExpr elemType of
        Inl e \<Rightarrow> Inl e
      | Inr vts \<Rightarrow>
          (case tokensForMapItems rest elemType of
             Inl e \<Rightarrow> Inl e
           | Inr ts \<Rightarrow>
               Inr (\<lparr>st_Type = TokenMapKey, st_Modifiers = [], st_Range = keyRange\<rparr> # vts @ ts)))"
| "tokensForTupleConsExpr exprs exprType = tokensForTupleElems 0 exprs exprType"
| "tokensForTupleElems i [] exprType = Inr []"
| "tokensForTupleElems i (e # rest) exprType =
     (case (case exprType of
              cty_List elemType \<Rightarrow> Inr elemType
            | cty_Set elemType \<Rightarrow> Inr elemType
            | cty_Tuple elemTypes \<Rightarrow>
                if i < length elemTypes then Inr (elemTypes ! i)
                else Inl (RuntimePanic ''index out of range'')
            | _ \<Rightarrow> Inr cty_NilType) of
        Inl e \<Rightarrow> Inl e
      | Inr elemType \<Rightarrow>
          (case tokenForTypedExpression e elemType of
             Inl e \<Rightarrow> Inl e
           | Inr ets \<Rightarrow>
               (case tokensForTupleElems (i + 1) rest exprType of
                  Inl e \<Rightarrow> Inl e
                | Inr ts \<Rightarrow> Inr (ets @ ts))))"

fun tokensForConstrainedExpression :: "Expression \<Rightarrow> ExprConstraints \<Rightarrow> error + SemanticToken list" where
  "tokensForConstrainedExpression (TemplateExpr [part] r) constraints =
     tokensForConstrainedExpression part constraints"
| "tokensForConstrainedExpression (TemplateExpr parts r) constraints = Inr []"
| "tokensForConstrainedExpression (TemplateWrapExpr wrapped r) constraints =
     tokensForConstrainedExpression wrapped constraints"
| "tokensForConstrainedExpression (TupleConsExpr exprs r) constraints =
     (case listTypeLiteralConstraint constraints of
        Some t \<Rightarrow> tokensForTupleConsExpr exprs t
      | None \<Rightarrow>
     (case setTypeLiteralConstraint constraints of
        Some t \<Rightarrow> tokensForTupleConsExpr exprs t
      | None \<Rightarrow>
     (case tupleTypeLiteralConstraint constraints of
        Some t \<Rightarrow> tokensForTupleConsExpr exprs t
      | None \<Rightarrow> Inr [])))"
| "tokensForConstrainedExpression (ObjectConsExpr items r) constraints =
     (case objectTypeLiteralConstraint constraints of
        Some t \<Rightarrow> tokensForObjectConsExpr items t
      | None \<Rightarrow>
     (case mapTypeLiteralConstraint constraints of
        Some t \<Rightarrow> tokensForObjectConsExpr items t
      | None \<Rightarrow> Inr []))"
| "tokensForConstrainedExpression (LiteralValueExpr val r) constraints =
     (case literalExprForType (TypeOf val) constraints of
        None \<Rightarrow> Inr []
      | Some t \<Rightarrow> tokenForTypedExpression (LiteralValueExpr val r) (TypeOf val))"
| "tokensForConstrainedExpression (OtherExpr n r) constraints = Inr []"

section \<open>Position resolver\<close>

text \<open>
  The schema of an attribute: the entry under its name, else the schema for any
  attribute, else none.
\<close>

definition attrSchemaFor :: "BodySchema \<Rightarrow> string \<Rightarrow> AttributeSchema option" where
  "attrSchemaFor bodySchema name =
     (case map_of (bs_Attributes bodySchema) name of
        Some aSchema \<Rightarrow> Some aSchema
      | None \<Rightarrow> bs_AnyAttribute bodySchema)"

text \<open>
  \<open>hoverAtPos\<close> returns \<open>(nil, nil)\<close> for a body without schema: \<open>Inr None\<close>. The
  loops over the attributes, the labels and the blocks return from inside; \<open>None\<close> of a
  loop function is "fell through". A Go map is walked in an unspecified order; the
  attributes are walked in the order of the list.
\<close>

type_synonym hover_result = "error + HoverData option"

fun hoverAttrs ::
  "decoder_ext \<Rightarrow> cty_ext \<Rightarrow> string \<Rightarrow> (string \<times> Attribute) list \<Rightarrow> BodySchema \<Rightarrow> Pos
    \<Rightarrow> hover_result option" where
  "hoverAttrs D X filename [] bodySchema pos = None"
| "hoverAttrs D X filename ((name, attr) # rest) bodySchema pos =
     (if ContainsPos (attr_SrcRange attr) pos then
        (case attrSchemaFor bodySchema (attr_Name attr) of
           None \<Rightarrow>
             Some (Inl (PositionalError filename pos
                          (''unknown attribute '' @ Quote X (attr_Name attr))))
         | Some aSchema \<Rightarrow>
             if ContainsPos (attr_NameRange attr) pos then
               Some (Inr (Some \<lparr>hd_Content = hoverContentForAttribute D name aSchema,
                                hd_Range = attr_SrcRange attr\<rparr>))
             else if ContainsPos (ExprRange (attr_Expr attr)) pos then
               Some (case hoverContentForExpr X (attr_Expr attr) (as_Expr aSchema) of
                       Inl (ErrorString msg) \<Rightarrow> Inl (PositionalError filename pos msg)
                     | Inl e \<Rightarrow> Inl e
                     | Inr content \<Rightarrow>
                         Inr (Some \<lparr>hd_Content = content,
                                    hd_Range = ExprRange (attr_Expr attr)\<rparr>))
             else hoverAttrs D X filename rest bodySchema pos)
      else hoverAttrs D X filename rest bodySchema pos)"

fun hoverLabels ::
  "decoder_ext \<Rightarrow> cty_ext \<Rightarrow> string \<Rightarrow> nat \<Rightarrow> Range list \<Rightarrow> Block \<Rightarrow> BlockSchema \<Rightarrow> Pos
    \<Rightarrow> hover_result option" where
  "hoverLabels D X filename i [] block bSchema pos = None"
| "hoverLabels D X filename i (labelRange # rest) block bSchema pos =
     (if ContainsPos labelRange pos then
        (if i + 1 > length (bl_Labels bSchema) then
           (if i < length (blk_Labels block) then
              Some (Inl (PositionalError filename pos
                           (''unexpected label ('' @ show_nat i @ '') ''
                              @ Quote X (blk_Labels block ! i))))
            else Some (Inl (RuntimePanic ''index out of range'')))
         else
           Some (case hoverContentForLabel D X i block bSchema of
                   Inl e \<Rightarrow> Inl e
                 | Inr content \<Rightarrow> Inr (Some \<lparr>hd_Content = content, hd_Range = labelRange\<rparr>)))
      else hoverLabels D X filename (i + 1) rest block bSchema pos)"

lemma size_blk_Body: "blk_Body block = Some b \<Longrightarrow> size b < size block"
  by (cases block) auto

lemma size_body_Blocks: "size_list size (body_Blocks body) < size body"
  by (cases body) auto

function hoverAtPos ::
    "decoder_ext \<Rightarrow> cty_ext \<Rightarrow> Body \<Rightarrow> BodySchema option \<Rightarrow> Pos \<Rightarrow> hover_result"
  and hoverBlocks ::
    "decoder_ext \<Rightarrow> cty_ext \<Rightarrow> string \<Rightarrow> Block list \<Rightarrow> BodySchema \<Rightarrow> Pos \<Rightarrow> hover_result option"
where
  "hoverAtPos D X body None pos = Inr None"
| "hoverAtPos D X body (Some bodySchema) pos =
     (let filename = Filename (body_SrcRange body) in
      case hoverAttrs D X filename (body_Attributes body) bodySchema pos of
        Some res \<Rightarrow> res
      | None \<Rightarrow>
          (case hoverBlocks D X filename (body_Blocks body) bodySchema pos of
             Some res \<Rightarrow> res
           | None \<Rightarrow>
               Inl (PositionalError filename pos
                      ''position outside of any attribute name, value or block'')))"
| "hoverBlocks D X filename [] bodySchema pos = None"
| "hoverBlocks D X filename (block # rest) bodySchema pos =
     (if ContainsPos (BlockRange block) pos then
        (case map_of (bs_Blocks bodySchema) (blk_Type block) of
           None \<Rightarrow>
             Some (Inl (PositionalError filename pos
                          (''unknown block type '' @ Quote X (blk_Type block))))
         | Some bSchema \<Rightarrow>
             if ContainsPos (blk_TypeRange block) pos then
               Some (Inr (Some \<lparr>hd_Content = hoverContentForBlock D (blk_Type block) bSchema,
                                hd_Range = blk_TypeRange block\<rparr>))
             else
               (case hoverLabels D X filename 0 (blk_LabelRanges block) block bSchema pos of
                  Some res \<Rightarrow> Some res
                | None \<Rightarrow>
                    if isPosOutsideBody D block pos then
                      Some (Inl (PositionalError filename pos
                                   (''position outside of '' @ Quote X (blk_Type block) @ '' body'')))
                    else
                      (case blk_Body block of
                         None \<Rightarrow> hoverBlocks D X filename rest bodySchema pos
                       | Some b \<Rightarrow>
                           if ContainsPos (body_SrcRange b) pos then
                             (case mergeBlockBodySchemas D block bSchema of
                                Inl e \<Rightarrow> Some (Inl e)
                              | Inr mergedSchema \<Rightarrow> Some (hoverAtPos D X b mergedSchema pos))
                           else hoverBlocks D X filename rest bodySchema pos)))
      else hoverBlocks D X filename rest bodySchema pos)"
  by pat_completeness auto

termination
  apply (relation "measure (\<lambda>x. case x of
      Inl (D, X, body, s, pos) \<Rightarrow> size body
    | Inr (D, X, filename, blocks, s, pos) \<Rightarrow> size_list size blocks)")
  apply (auto dest: size_blk_Body simp: size_body_Blocks)
  done

section \<open>Semantic tokens\<close>

definition tokenModifiers :: "bool \<Rightarrow> bool \<Rightarrow> SemanticTokenModifier list" where
  "tokenModifiers isDependent isDeprecated =
     (if isDependent then [TokenModifierDependent] else [])
     @ (if isDeprecated then [TokenModifierDeprecated] else [])"

fun tokensForAttrs ::
  "(string \<times> Attribute) list \<Rightarrow> BodySchema \<Rightarrow> bool \<Rightarrow> error + SemanticToken list" where
  "tokensForAttrs [] bodySchema isDependent = Inr []"
| "tokensForAttrs ((name, attr) # rest) bodySchema isDependent =
     (case attrSchemaFor bodySchema name of
        None \<Rightarrow> tokensForAttrs rest bodySchema isDependent
      | Some attrSchema \<Rightarrow>
          (case tokensForConstrainedExpression (attr_Expr attr) (as_Expr attrSchema) of
             Inl e \<Rightarrow> Inl e
           | Inr ets \<Rightarrow>
               (case tokensForAttrs rest bodySchema isDependent of
                  Inl e \<Rightarrow> Inl e
                | Inr ts \<Rightarrow>
                    Inr (\<lparr>st_Type = TokenAttrName,
                          st_Modifiers = tokenModifiers isDependent (as_IsDeprecated attrSchema),
                          st_Range = attr_NameRange attr\<rparr> # ets @ ts))))"

fun tokensForLabels :: "nat \<Rightarrow> Range list \<Rightarrow> BlockSchema \<Rightarrow> SemanticToken list" where
  "tokensForLabels i [] blockSchema = []"
| "tokensForLabels i (labelRange # rest) blockSchema =
     (if i + 1 > length (bl_Labels blockSchema) then tokensForLabels (i + 1) rest blockSchema
      else \<lparr>st_Type = TokenBlockLabel,
            st_Modifiers =
              (if ls_IsDepKey (bl_Labels blockSchema ! i) then [TokenModifierDependent] else []),
            st_Range = labelRange\<rparr> # tokensForLabels (i + 1) rest blockSchema)"

function tokensForBody ::
    "decoder_ext \<Rightarrow> Body \<Rightarrow> BodySchema option \<Rightarrow> bool \<Rightarrow> error + SemanticToken list"
  and tokensForBlocks ::
    "decoder_ext \<Rightarrow> Block list \<Rightarrow> BodySchema \<Rightarrow> bool \<Rightarrow> error + SemanticToken list"
where
  "tokensForBody D body None isDependent = Inr []"
| "tokensForBody D body (Some bodySchema) isDependent =
     (case tokensForAttrs (body_Attributes body) bodySchema isDependent of
        Inl e \<Rightarrow> Inl e
      | Inr ats \<Rightarrow>
          (case tokensForBlocks D (body_Blocks body) bodySchema isDependent of
             Inl e \<Rightarrow> Inl e
           | Inr bts \<Rightarrow> Inr (ats @ bts)))"
| "tokensForBlocks D [] bodySchema isDependent = Inr []"
| "tokensForBlocks D (block # rest) bodySchema isDependent =
     (case map_of (bs_Blocks bodySchema) (blk_Type block) of
        None \<Rightarrow> tokensForBlocks D rest bodySchema isDependent
      | Some blockSchema \<Rightarrow>
          (case (case blk_Body block of
                   None \<Rightarrow> Inr []
                 | Some b \<Rightarrow> tokensForBody D b (bl_Body blockSchema) False) of
             Inl e \<Rightarrow> Inl e
           | Inr plain \<Rightarrow>
               (case (case DependentBodySchema D blockSchema
                              (dependencyKeysFromBlock D block blockSchema) of
                        None \<Rightarrow> Inr []
                      | Some depSchema \<Rightarrow>
                          (case blk_Body block of
                             None \<Rightarrow> Inl (RuntimePanic ''nil pointer dereference'')
                           | Some b \<Rightarrow> tokensForBody D b (Some depSchema) True)) of
                  Inl e \<Rightarrow> Inl e
                | Inr deps \<Rightarrow>
                    (case tokensForBlocks D rest bodySchema isDependent of
                       Inl e \<Rightarrow> Inl e
                     | Inr ts \<Rightarrow>
                         Inr (\<lparr>st_Type = TokenBlockType,
                               st_Modifiers = tokenModifiers isDependent (bl_IsDeprecated blockSchema),
                               st_Range = blk_TypeRange block\<rparr>
                              # tokensForLabels 0 (blk_LabelRanges block) blockSchema
                              @ plain @ deps @ ts)))))"
  by pat_completeness auto

termination
  apply (relation "measure (\<lambda>x. case x of
      Inl (D, body, s, dep) \<Rightarrow> size body
    | Inr (D, blocks, s, dep) \<Rightarrow> size_list size blocks)")
  apply (auto dest: size_blk_Body simp: size_body_Blocks)
  done

section \<open>The decoder and its queries\<close>

text \<open>
  A loaded file holds a body; only a body of the syntax tree can be decoded
  (\<open>ForeignBody\<close> is any other, such as \<open>hcl.EmptyBody()\<close>).
\<close>

datatype FileBody = SyntaxBody Body | ForeignBody

record File =
  file_Body :: FileBody

record Decoder =
  dec_files :: "(string \<times> File) list"
  dec_rootSchema :: "BodySchema option"

text \<open>
  Modelled from the spec: \<open>fileByName\<close> and \<open>bodyForFileAndPos\<close> are not under src.
  A query that names a document that is not registered fails with the file-not-found
  error; a document whose body the resolver cannot interpret fails with the
  unknown-file-format error.
\<close>

definition fileByName :: "Decoder \<Rightarrow> string \<Rightarrow> error + File" where
  "fileByName d name =
     (case map_of (dec_files d) name of
        None \<Rightarrow> Inl (FileNotFoundError name)
      | Some f \<Rightarrow> Inr f)"

definition bodyForFileAndPos :: "string \<Rightarrow> File \<Rightarrow> Pos \<Rightarrow> error + Body" where
  "bodyForFileAndPos name f pos =
     (case file_Body f of
        SyntaxBody body \<Rightarrow> Inr body
      | ForeignBody \<Rightarrow> Inl (UnknownFileFormatError name))"

definition InitialPos :: Pos where
  "InitialPos = \<lparr>Line = 1, Column = 1, Byte = 0\<rparr>"

text \<open>
  \<open>sort.Slice\<close> by the byte offset of the start of the range. Go does not promise a
  stable sort; the insertion sort here is one of the permitted outcomes.
\<close>

definition sortTokens :: "SemanticToken list \<Rightarrow> SemanticToken list" where
  "sortTokens tokens = sort_key (\<lambda>t. Byte (Start (st_Range t))) tokens"

definition SemanticTokensInFile :: "decoder_ext \<Rightarrow> Decoder \<Rightarrow> string \<Rightarrow> error + SemanticToken list" where
  "SemanticTokensInFile D d filename =
     (case fileByName d filename of
        Inl e \<Rightarrow> Inl e
      | Inr f \<Rightarrow>
          (case bodyForFileAndPos filename f InitialPos of
             Inl e \<Rightarrow> Inl e
           | Inr body \<Rightarrow>
               (case dec_rootSchema d of
                  None \<Rightarrow> Inr []
                | Some rootSchema \<Rightarrow>
                    (case tokensForBody D body (Some rootSchema) False of
                       Inl e \<Rightarrow> Inl e
                     | Inr tokens \<Rightarrow> Inr (sortTokens tokens)))))"

definition HoverAtPos :: "decoder_ext \<Rightarrow> cty_ext \<Rightarrow> Decoder \<Rightarrow> string \<Rightarrow> Pos \<Rightarrow> hover_result" where
  "HoverAtPos D X d filename pos =
     (case fileByName d filename of
        Inl e \<Rightarrow> Inl e
      | Inr f \<Rightarrow>
          (case bodyForFileAndPos filename f pos of
             Inl e \<Rightarrow> Inl e
           | Inr rootBody \<Rightarrow>
               (case dec_rootSchema d of
                  None \<Rightarrow> Inl NoSchemaError
                | Some rootSchema \<Rightarrow> hoverAtPos D X rootBody (Some rootSchema) pos)))"

section \<open>Dependency keys\<close>

text \<open>
  Modelled from the spec: \<open>dependencyKeysFromBlock\<close>, \<open>NewSchemaKey\<close> and
  \<open>DependentBodySchema\<close> are not under src. For every label schema flagged as a
  dependency key the value of the label at that position is read; the keys are
  serialised independently of their order; the serialisation is looked up in the table
  of dependent body schemas of the block schema. A block with fewer labels than the
  flagged positions finds nothing.
\<close>

fun specDepLabels :: "nat \<Rightarrow> LabelSchema list \<Rightarrow> string list \<Rightarrow> LabelDependent list" where
  "specDepLabels i [] labels = []"
| "specDepLabels i (labelSchema # rest) labels =
     (if ls_IsDepKey labelSchema \<and> i < length labels
      then \<lparr>ld_Index = i, ld_Value = labels ! i\<rparr> # specDepLabels (i + 1) rest labels
      else specDepLabels (i + 1) rest labels)"

definition specDependencyKeysFromBlock :: "Block \<Rightarrow> BlockSchema \<Rightarrow> DependencyKeys" where
  "specDependencyKeysFromBlock block bSchema =
     \<lparr>dk_Labels = specDepLabels 0 (bl_Labels bSchema) (blk_Labels block)\<rparr>"

definition specNewSchemaKey :: "DependencyKeys \<Rightarrow> SchemaKey" where
  "specNewSchemaKey dk =
     concat (map (\<lambda>l. show_nat (ld_Index l) @ ''='' @ ld_Value l @ '';'')
                 (sort_key ld_Index (dk_Labels dk)))"

definition specDependentBodySchema :: "BlockSchema \<Rightarrow> DependencyKeys \<Rightarrow> BodySchema option" where
  "specDependentBodySchema bSchema dk =
     (if length (dk_Labels dk) = length (filter ls_IsDepKey (bl_Labels bSchema))
      then map_of (bl_DependentBody bSchema) (specNewSchemaKey dk)
      else None)"

text \<open>
  Modelled from the spec: \<open>isPosOutsideBody\<close> and \<open>mergeBlockBodySchemas\<close> are not under
  src. A position is outside the body of a block when the range of the body does not
  contain it; the merged schema has the entries of the dependent body schema before those
  of the block's own body schema, so that the dependent entry wins under one name.
\<close>

definition specIsPosOutsideBody :: "Block \<Rightarrow> Pos \<Rightarrow> bool" where
  "specIsPosOutsideBody block pos =
     (case blk_Body block of
        None \<Rightarrow> True
      | Some b \<Rightarrow> \<not> ContainsPos (body_SrcRange b) pos)"

definition specMergeBlockBodySchemas :: "Block \<Rightarrow> BlockSchema \<Rightarrow> error + BodySchema option" where
  "specMergeBlockBodySchemas block bSchema =
     (case specDependentBodySchema bSchema (specDependencyKeysFromBlock block bSchema) of
        None \<Rightarrow> Inr (bl_Body bSchema)
      | Some dep \<Rightarrow>
          (case bl_Body bSchema of
             None \<Rightarrow> Inr (Some dep)
           | Some own \<Rightarrow>
               Inr (Some (BodySchema (bs_Attributes dep @ bs_Attributes own)
                                     (bs_Blocks dep @ bs_Blocks own)
                                     (bs_AnyAttribute own) (bs_Detail own)
                                     (bs_Description own) (bs_DocsLink own)))))"

definition D0 :: decoder_ext where
  "D0 = \<lparr>detailForAttribute = (\<lambda>a. []), detailForBlock = (\<lambda>b. []),
         docsURL = (\<lambda>u t. None),
         isPosOutsideBody = specIsPosOutsideBody,
         mergeBlockBodySchemas = specMergeBlockBodySchemas,
         dependencyKeysFromBlock = specDependencyKeysFromBlock,
         DependentBodySchema = specDependentBodySchema,
         TrimSpace = (\<lambda>s. s)\<rparr>"

section \<open>The selection rule of the constraint engine, in the words of the specification\<close>

text \<open>
  The first constraint whose declared type has a given shape; for a sequence
  construction the first list type, else the first set type, else the first tuple type;
  for a keyed construction the first object type, else the first map type; for a literal
  the constraint whose declared type equals the type of the value.
\<close>

definition spec_firstOfShape :: "(cty_type \<Rightarrow> bool) \<Rightarrow> ExprConstraints \<Rightarrow> cty_type option" where
  "spec_firstOfShape shape constraints = find shape (LiteralValueTypes constraints)"

definition spec_matchSequence :: "ExprConstraints \<Rightarrow> cty_type option" where
  "spec_matchSequence constraints =
     (case spec_firstOfShape IsListType constraints of
        Some t \<Rightarrow> Some t
      | None \<Rightarrow>
     (case spec_firstOfShape IsSetType constraints of
        Some t \<Rightarrow> Some t
      | None \<Rightarrow> spec_firstOfShape IsTupleType constraints))"

definition spec_matchKeyed :: "ExprConstraints \<Rightarrow> cty_type option" where
  "spec_matchKeyed constraints =
     (case spec_firstOfShape IsObjectType constraints of
        Some t \<Rightarrow> Some t
      | None \<Rightarrow> spec_firstOfShape IsMapType constraints)"

definition spec_matchLiteral :: "cty_type \<Rightarrow> ExprConstraints \<Rightarrow> cty_type option" where
  "spec_matchLiteral valueType constraints =
     (if valueType \<in> set (LiteralValueTypes constraints) then Some valueType else None)"

section \<open>What the token emitter is expected to produce\<close>

text \<open>
  The errors of a walk are panics only. A value token is a token of a literal or of a
  key, without modifiers; a structural token is the name of an attribute, the type of a
  block or a label. The key of a token is its type and its range.
\<close>

fun is_panic :: "error \<Rightarrow> bool" where
  "is_panic (RuntimePanic m) = True"
| "is_panic _ = False"

definition value_token :: "SemanticToken \<Rightarrow> bool" where
  "value_token t \<longleftrightarrow>
     st_Type t \<in> {TokenString, TokenNumber, TokenBool, TokenObjectKey, TokenMapKey}
     \<and> st_Modifiers t = []"

definition structural :: "SemanticToken \<Rightarrow> bool" where
  "structural t \<longleftrightarrow> st_Type t \<in> {TokenAttrName, TokenBlockType, TokenBlockLabel}"

definition expr_result :: "error + SemanticToken list \<Rightarrow> bool" where
  "expr_result res = (case res of Inl e \<Rightarrow> is_panic e | Inr ts \<Rightarrow> list_all value_token ts)"

definition tkey :: "SemanticToken \<Rightarrow> SemanticTokenType \<times> Range" where
  "tkey t = (st_Type t, st_Range t)"

text \<open>
  In the words of the specification: one attribute-name token for every attribute that
  the schema recognises (under its name or through the schema for any attribute), one
  block-type token for every block whose type the schema declares, one label token for
  every label whose index lies within the label schemas of the block; the body of a
  block is walked against the body schema of the block and, when a dependent body schema
  matches, once more against that.
\<close>

definition spec_attrTokens ::
  "(string \<times> Attribute) list \<Rightarrow> BodySchema \<Rightarrow> (SemanticTokenType \<times> Range) list" where
  "spec_attrTokens attrs bodySchema =
     map (\<lambda>(name, attr). (TokenAttrName, attr_NameRange attr))
         (filter (\<lambda>(name, attr). attrSchemaFor bodySchema name \<noteq> None) attrs)"

definition spec_labelTokens :: "Range list \<Rightarrow> BlockSchema \<Rightarrow> (SemanticTokenType \<times> Range) list" where
  "spec_labelTokens labelRanges blockSchema =
     map (\<lambda>r. (TokenBlockLabel, r)) (take (length (bl_Labels blockSchema)) labelRanges)"

function spec_bodyTokens ::
    "decoder_ext \<Rightarrow> Body \<Rightarrow> BodySchema option \<Rightarrow> (SemanticTokenType \<times> Range) list"
  and spec_blockTokens ::
    "decoder_ext \<Rightarrow> Block list \<Rightarrow> BodySchema \<Rightarrow> (SemanticTokenType \<times> Range) list"
where
  "spec_bodyTokens D body None = []"
| "spec_bodyTokens D body (Some bodySchema) =
     spec_attrTokens (body_Attributes body) bodySchema
     @ spec_blockTokens D (body_Blocks body) bodySchema"
| "spec_blockTokens D [] bodySchema = []"
| "spec_blockTokens D (block # rest) bodySchema =
     (case map_of (bs_Blocks bodySchema) (blk_Type block) of
        None \<Rightarrow> spec_blockTokens D rest bodySchema
      | Some blockSchema \<Rightarrow>
          (TokenBlockType, blk_TypeRange block)
          # spec_labelTokens (blk_LabelRanges block) blockSchema
          @ (case blk_Body block of
               None \<Rightarrow> []
             | Some b \<Rightarrow>
                 spec_bodyTokens D b (bl_Body blockSchema)
                 @ (case DependentBodySchema D blockSchema
                           (dependencyKeysFromBlock D block blockSchema) of
                      None \<Rightarrow> []
                    | Some depSchema \<Rightarrow> spec_bodyTokens D b (Some depSchema)))
          @ spec_blockTokens D rest bodySchema)"
  by pat_completeness auto

termination
  apply (relation "measure (\<lambda>x. case x of
      Inl (D, body, s) \<Rightarrow> size body
    | Inr (D, blocks, s) \<Rightarrow> size_list size blocks)")
  apply (auto dest: size_blk_Body simp: size_body_Blocks)
  done

definition body_result ::
  "(SemanticTokenType \<times> Range) list \<Rightarrow> error + SemanticToken list \<Rightarrow> bool" where
  "body_result expected res =
     (case res of
        Inl e \<Rightarrow> is_panic e
      | Inr ts \<Rightarrow> map tkey (filter structural ts) = expected
                 \<and> list_all (\<lambda>t. structural t \<or> value_token t) ts)"

section \<open>When a walk returns\<close>

text \<open>
  A walk of the token emitter panics in three places: a member of a sequence construction
  that is matched against a tuple type at an index the tuple type does not have, a key
  of a keyed construction that is a null string, and a block without a body whose
  dependency keys find a dependent body schema. The following conditions on the document
  and the schema say that none of them is met; they follow the walk, not its result.
\<close>

fun noPanicTyped :: "Expression \<Rightarrow> cty_type \<Rightarrow> bool"
  and noPanicObjectItems :: "ObjectConsItem list \<Rightarrow> (string \<times> cty_type) list \<Rightarrow> bool"
  and noPanicMapItems :: "ObjectConsItem list \<Rightarrow> cty_type \<Rightarrow> bool"
  and noPanicTupleElems :: "nat \<Rightarrow> Expression list \<Rightarrow> cty_type \<Rightarrow> bool"
where
  "noPanicTyped (ObjectConsExpr items r) t =
     (case t of
        cty_Object attrTypes \<Rightarrow> noPanicObjectItems items attrTypes
      | cty_Map elemType \<Rightarrow> noPanicMapItems items elemType
      | _ \<Rightarrow> True)"
| "noPanicTyped (TupleConsExpr exprs r) t = noPanicTupleElems 0 exprs t"
| "noPanicTyped (LiteralValueExpr val r) t = True"
| "noPanicTyped (TemplateExpr parts r) t = True"
| "noPanicTyped (TemplateWrapExpr wrapped r) t = True"
| "noPanicTyped (OtherExpr n r) t = True"
| "noPanicObjectItems [] attrTypes = True"
| "noPanicObjectItems (ObjectConsItem key keyRange valueExpr # rest) attrTypes =
     (key \<noteq> NullVal cty_String
      \<and> (case key of
           StringVal k \<Rightarrow>
             (case map_of attrTypes k of
                None \<Rightarrow> True
              | Some valType \<Rightarrow> noPanicTyped valueExpr valType)
         | _ \<Rightarrow> True)
      \<and> noPanicObjectItems rest attrTypes)"
| "noPanicMapItems [] elemType = True"
| "noPanicMapItems (ObjectConsItem key keyRange valueExpr # rest) elemType =
     (noPanicTyped valueExpr elemType \<and> noPanicMapItems rest elemType)"
| "noPanicTupleElems i [] t = True"
| "noPanicTupleElems i (e # rest) t =
     ((case t of
         cty_List elemType \<Rightarrow> noPanicTyped e elemType
       | cty_Set elemType \<Rightarrow> noPanicTyped e elemType
       | cty_Tuple elemTypes \<Rightarrow> i < length elemTypes \<and> noPanicTyped e (elemTypes ! i)
       | _ \<Rightarrow> noPanicTyped e cty_NilType)
      \<and> noPanicTupleElems (i + 1) rest t)"

fun noPanicConstrained :: "Expression \<Rightarrow> ExprConstraints \<Rightarrow> bool" where
  "noPanicConstrained (TemplateExpr [part] r) constraints = noPanicConstrained part constraints"
| "noPanicConstrained (TemplateExpr parts r) constraints = True"
| "noPanicConstrained (TemplateWrapExpr wrapped r) constraints =
     noPanicConstrained wrapped constraints"
| "noPanicConstrained (TupleConsExpr exprs r) constraints =
     (case spec_matchSequence constraints of
        None \<Rightarrow> True
      | Some t \<Rightarrow> noPanicTyped (TupleConsExpr exprs r) t)"
| "noPanicConstrained (ObjectConsExpr items r) constraints =
     (case spec_matchKeyed constraints of
        None \<Rightarrow> True
      | Some t \<Rightarrow> noPanicTyped (ObjectConsExpr items r) t)"
| "noPanicConstrained (LiteralValueExpr val r) constraints = True"
| "noPanicConstrained (OtherExpr n r) constraints = True"

definition noPanicAttrs :: "(string \<times> Attribute) list \<Rightarrow> BodySchema \<Rightarrow> bool" where
  "noPanicAttrs attrs bodySchema =
     list_all (\<lambda>(name, attr).
        case attrSchemaFor bodySchema name of
          None \<Rightarrow> True
        | Some attrSchema \<Rightarrow> noPanicConstrained (attr_Expr attr) (as_Expr attrSchema)) attrs"

function noPanicBody :: "decoder_ext \<Rightarrow> Body \<Rightarrow> BodySchema option \<Rightarrow> bool"
  and noPanicBlocks :: "decoder_ext \<Rightarrow> Block list \<Rightarrow> BodySchema \<Rightarrow> bool"
where
  "noPanicBody D body None = True"
| "noPanicBody D body (Some bodySchema) =
     (noPanicAttrs (body_Attributes body) bodySchema
      \<and> noPanicBlocks D (body_Blocks body) bodySchema)"
| "noPanicBlocks D [] bodySchema = True"
| "noPanicBlocks D (block # rest) bodySchema =
     ((case map_of (bs_Blocks bodySchema) (blk_Type block) of
         None \<Rightarrow> True
       | Some blockSchema \<Rightarrow>
           (case blk_Body block of
              None \<Rightarrow>
                DependentBodySchema D blockSchema (dependencyKeysFromBlock D block blockSchema) = None
            | Some b \<Rightarrow>
                noPanicBody D b (bl_Body blockSchema)
                \<and> (case DependentBodySchema D blockSchema
                            (dependencyKeysFromBlock D block blockSchema) of
                     None \<Rightarrow> True
                   | Some depSchema \<Rightarrow> noPanicBody D b (Some depSchema))))
      \<and> noPanicBlocks D rest bodySchema)"
  by pat_completeness auto

termination
  apply (relation "measure (\<lambda>x. case x of
      Inl (D, body, s) \<Rightarrow> size body
    | Inr (D, blocks, s) \<Rightarrow> size_list size blocks)")
  apply (auto dest: size_blk_Body simp: size_body_Blocks)
  done

definition returns :: "error + 'a \<Rightarrow> bool" where
  "returns res \<longleftrightarrow> (\<exists>x. res = Inr x)"

section \<open>Concrete inputs\<close>

text \<open>
  An instance of the formatting parameters, and the pieces of a one-line document
  \<open>a = \<close> whose value is missing: the parser leaves an unknown literal of zero width
  at byte 4.
\<close>

definition X0 :: cty_ext where
  "X0 = \<lparr>FriendlyName = (\<lambda>t. []), Quote = (\<lambda>s. DQ @ s @ DQ), FormatFloat = (\<lambda>r. []),
         BigFloatString = (\<lambda>r. [])\<rparr>"

definition rng0 :: "int \<Rightarrow> int \<Rightarrow> Range" where
  "rng0 a b = \<lparr>Filename = ''test.tf'', Start = \<lparr>Line = 1, Column = a + 1, Byte = a\<rparr>,
      End = \<lparr>Line = 1, Column = b + 1, Byte = b\<rparr>\<rparr>"

definition emptyAttr :: Attribute where
  "emptyAttr = \<lparr>attr_Name = ''a'',
      attr_Expr = LiteralValueExpr (UnknownVal cty_DynamicPseudoType) (rng0 4 4),
      attr_SrcRange = rng0 0 4, attr_NameRange = rng0 0 1\<rparr>"

definition schemaOf :: "cty_type \<Rightarrow> AttributeSchema" where
  "schemaOf t = \<lparr>as_Expr = LiteralTypeOnly t, as_IsDeprecated = False, as_Description = NoMarkup\<rparr>"

definition pos0 :: "int \<Rightarrow> Pos" where
  "pos0 b = \<lparr>Line = 1, Column = b + 1, Byte = b\<rparr>"

text \<open>A decoder that holds one file with an empty body and no schema.\<close>

definition emptyFileDecoder :: Decoder where
  "emptyFileDecoder =
     \<lparr>dec_files = [(''test.tf'', \<lparr>file_Body = SyntaxBody (Body [] [] (rng0 0 0))\<rparr>)],
      dec_rootSchema = None\<rparr>"

text \<open>
  The document \<open>resource "aws_instance" "x" {}\<close> and a schema whose \<open>resource\<close>
  block declares one label.
\<close>

definition labelBlock :: Block where
  "labelBlock = Block ''resource'' [''aws_instance'', ''x''] (Some (Body [] [] (rng0 29 29)))
      (rng0 0 8) [rng0 9 23, rng0 24 27] (rng0 28 29) (rng0 29 30)"

definition labelBody :: Body where
  "labelBody = Body [] [labelBlock] (rng0 0 30)"

definition oneLabelSchema :: BodySchema where
  "oneLabelSchema = BodySchema []
      [(''resource'', BlockSchema [\<lparr>ls_Name = ''type'', ls_Description = NoMarkup, ls_IsDepKey = False\<rparr>]
          None [] False NoMarkup)]
      None [] NoMarkup None"

text \<open>
  The document \<open>resource "aws_instance" "beta" { instance_type = "t2.micro" }\<close> and a
  schema whose \<open>resource\<close> block has the labels \<open>type\<close> (a dependency key) and \<open>name\<close>
  and a dependent body schema, under the key "label 0 is aws_instance", that declares the
  string attribute \<open>instance_type\<close>. The block's own body schema is a parameter.
\<close>

definition instanceTypeSchema :: BodySchema where
  "instanceTypeSchema = BodySchema [(''instance_type'', schemaOf cty_String)] [] None [] NoMarkup None"

definition resourceSchema :: "BodySchema option \<Rightarrow> BlockSchema" where
  "resourceSchema ownBody =
     BlockSchema [\<lparr>ls_Name = ''type'', ls_Description = NoMarkup, ls_IsDepKey = True\<rparr>,
                  \<lparr>ls_Name = ''name'', ls_Description = NoMarkup, ls_IsDepKey = False\<rparr>]
       ownBody
       [(specNewSchemaKey \<lparr>dk_Labels = [\<lparr>ld_Index = 0, ld_Value = ''aws_instance''\<rparr>]\<rparr>,
         instanceTypeSchema)]
       False NoMarkup"

definition awsSchema :: "BodySchema option \<Rightarrow> BodySchema" where
  "awsSchema ownBody = BodySchema [] [(''resource'', resourceSchema ownBody)] None [] NoMarkup None"

definition awsInner :: Body where
  "awsInner = Body [(''instance_type'',
       \<lparr>attr_Name = ''instance_type'',
        attr_Expr = TemplateExpr [LiteralValueExpr (StringVal ''t2.micro'') (rng0 50 58)] (rng0 49 59),
        attr_SrcRange = rng0 33 59, attr_NameRange = rng0 33 46\<rparr>)] [] (rng0 32 60)"

definition awsBlock :: Block where
  "awsBlock = Block ''resource'' [''aws_instance'', ''beta''] (Some awsInner)
      (rng0 0 8) [rng0 9 23, rng0 24 30] (rng0 31 32) (rng0 60 61)"

definition awsBody :: Body where
  "awsBody = Body [] [awsBlock] (rng0 0 61)"

definition awsDecoder :: "BodySchema option \<Rightarrow> Decoder" where
  "awsDecoder ownBody =
     \<lparr>dec_files = [(''test.tf'', \<lparr>file_Body = SyntaxBody awsBody\<rparr>)],
      dec_rootSchema = Some (awsSchema ownBody)\<rparr>"

text \<open>A token on the one line of these documents.\<close>

definition tokenAt :: "SemanticTokenType \<Rightarrow> SemanticTokenModifier list \<Rightarrow> int \<Rightarrow> int \<Rightarrow> SemanticToken" where
  "tokenAt ty ms a b = \<lparr>st_Type = ty, st_Modifiers = ms, st_Range = rng0 a b\<rparr>"







definition decoderOf :: "Body \<Rightarrow> BodySchema \<Rightarrow> Decoder" where
  "decoderOf body rootSchema =
     \<lparr>dec_files = [(''test.tf'', \<lparr>file_Body = SyntaxBody body\<rparr>)],
      dec_rootSchema = Some rootSchema\<rparr>"





text \<open>
  The body \<open>a = [1, 2]\<close> and a body schema that declares \<open>a\<close> as a tuple of one number.
\<close>

definition pairBody :: Body where
  "pairBody = Body [(''a'',
       \<lparr>attr_Name = ''a'',
        attr_Expr = TupleConsExpr [LiteralValueExpr (NumberVal 1) (rng0 5 6),
                                   LiteralValueExpr (NumberVal 2) (rng0 8 9)] (rng0 4 10),
        attr_SrcRange = rng0 0 10, attr_NameRange = rng0 0 1\<rparr>)] [] (rng0 0 10)"

definition singleTupleSchema :: BodySchema where
  "singleTupleSchema = BodySchema [(''a'', schemaOf (cty_Tuple [cty_Number]))] [] None [] NoMarkup None"

text \<open>The document \<open>a = \<close> with a literal of unknown value over the bytes 4 to 9.\<close>

definition wideAttr :: Attribute where
  "wideAttr = \<lparr>attr_Name = ''a'',
      attr_Expr = LiteralValueExpr (UnknownVal cty_DynamicPseudoType) (rng0 4 9),
      attr_SrcRange = rng0 0 9, attr_NameRange = rng0 0 1\<rparr>"

section \<open>Properties of the candidate generator\<close>

lemma show_nat_1 [simp]: "show_nat 1 = ''1''"
  by code_simp

lemma show_nat_Suc_0 [simp]: "show_nat (Suc 0) = ''1''"
  using show_nat_1 by simp

lemma valuesToCandidates_bool:
  "valuesToCandidates X [BoolVal False, BoolVal True] editRng =
     Inr [\<lparr>cand_Label = ''false'', cand_Detail = FriendlyName X cty_Bool,
            cand_Description = PlainText (FriendlyName X cty_Bool),
            cand_Kind = LiteralValueCandidateKind,
            cand_TextEdit = \<lparr>te_NewText = ''false'', te_Snippet = ''${1:false}'', te_Range = editRng\<rparr>\<rparr>,
          \<lparr>cand_Label = ''true'', cand_Detail = FriendlyName X cty_Bool,
            cand_Description = PlainText (FriendlyName X cty_Bool),
            cand_Kind = LiteralValueCandidateKind,
            cand_TextEdit = \<lparr>te_NewText = ''true'', te_Snippet = ''${1:true}'', te_Range = editRng\<rparr>\<rparr>]"
  by (simp add: valueToCandidates_def show_bool_def)

lemma typeToCandidates_range:
  "\<exists>cs. typeToCandidates X t editRng = Inr cs \<and> (\<forall>c\<in>set cs. te_Range (cand_TextEdit c) = editRng)"
  by (simp add: typeToCandidates_def valuesToCandidates_bool del: valuesToCandidates.simps)

lemma constraintToCandidates_range:
  "\<exists>cs. constraintToCandidates X c editRng = Inr cs \<and> (\<forall>c\<in>set cs. te_Range (cand_TextEdit c) = editRng)"
  by (cases c) (simp_all add: typeToCandidates_range)

lemma appendCandidates_range:
  "\<forall>c\<in>set acc. te_Range (cand_TextEdit c) = editRng \<Longrightarrow>
   \<exists>cs. appendCandidates X acc constraints editRng = Inr cs \<and>
        (\<forall>c\<in>set cs. te_Range (cand_TextEdit c) = editRng)"
proof (induction constraints arbitrary: acc)
  case Nil
  then show ?case by simp
next
  case (Cons c constraints)
  obtain cs where cs: "constraintToCandidates X c editRng = Inr cs"
    and rng: "\<forall>c\<in>set cs. te_Range (cand_TextEdit c) = editRng"
    using constraintToCandidates_range by blast
  have "\<forall>c\<in>set (acc @ cs). te_Range (cand_TextEdit c) = editRng"
    using Cons.prems rng by auto
  from Cons.IH [OF this] show ?case by (simp add: cs)
qed

lemma expressionCandidatesAtPos_range:
  "\<exists>cs. expressionCandidatesAtPos X constraints editRng = Inr \<lparr>cands_List = cs, cands_IsComplete = True\<rparr> \<and>
        (\<forall>c\<in>set cs. te_Range (cand_TextEdit c) = editRng)"
proof -
  obtain cs where "appendCandidates X [] constraints editRng = Inr cs"
    and "\<forall>c\<in>set cs. te_Range (cand_TextEdit c) = editRng"
    using appendCandidates_range [of "[]" editRng X constraints] by auto
  then show ?thesis by (simp add: expressionCandidatesAtPos_def NewCandidates_def)
qed

text \<open>
  C5. The candidates for the value of an attribute are always returned without error.
  They are the empty list when the value expression is a literal with a wholly known
  value and when it is no literal at all; when it is a literal whose value is not wholly
  known, every candidate offered has the edit range of the file of the expression that
  starts and ends at the start of the expression.
\<close>

theorem candidates_only_at_placeholder:
  "\<exists>cs. attrValueCandidatesAtPos X attr schema pos = Inr cs \<and>
     (case attr_Expr attr of
        LiteralValueExpr val r \<Rightarrow>
          (if IsWhollyKnown val then cands_List cs = []
           else \<forall>c\<in>set (cands_List cs).
                  te_Range (cand_TextEdit c)
                    = \<lparr>Filename = Filename r, Start = Start r, End = Start r\<rparr>)
      | _ \<Rightarrow> cands_List cs = [])"
proof (cases "attr_Expr attr")
  case (LiteralValueExpr val r)
  show ?thesis
  proof (cases "IsWhollyKnown val")
    case True
    then show ?thesis
      by (simp add: LiteralValueExpr attrValueCandidatesAtPos_def ZeroCandidates_def)
  next
    case False
    obtain cs where "expressionCandidatesAtPos X (as_Expr schema) (collapsed r)
        = Inr \<lparr>cands_List = cs, cands_IsComplete = True\<rparr>"
      and "\<forall>c\<in>set cs. te_Range (cand_TextEdit c) = collapsed r"
      using expressionCandidatesAtPos_range by blast
    with False show ?thesis
      by (simp add: LiteralValueExpr attrValueCandidatesAtPos_def ZeroCandidates_def
          collapsed_def)
  qed
qed (simp_all add: attrValueCandidatesAtPos_def ZeroCandidates_def)

theorem candidates_only_at_placeholder_witness:
  "ExprRange (attr_Expr wideAttr) = rng0 4 9
   \<and> attrValueCandidatesAtPos X0 wideAttr (schemaOf (cty_List cty_Number)) (pos0 6)
   = Inr \<lparr>cands_List = [\<lparr>cand_Label = ''[  ]'', cand_Detail = [], cand_Description = NoMarkup,
             cand_Kind = LiteralValueCandidateKind,
             cand_TextEdit = \<lparr>te_NewText = ''[ 1 ]'', te_Snippet = ''[ ${1:1} ]'',
                te_Range = \<lparr>Filename = ''test.tf'', Start = pos0 4, End = pos0 4\<rparr>\<rparr>\<rparr>],
           cands_IsComplete = True\<rparr>"
  using candidates_only_at_placeholder [of X0 wideAttr "schemaOf (cty_List cty_Number)" "pos0 6"]
  by (simp add: attrValueCandidatesAtPos_def expressionCandidatesAtPos_def NewCandidates_def
      typeToCandidates_def X0_def rng0_def pos0_def collapsed_def wideAttr_def schemaOf_def
      LiteralTypeOnly_def)

text \<open>
  C6. With the one constraint "literal of type bool" and a literal value that is not
  wholly known, the candidates are exactly two, \<open>false\<close> and \<open>true\<close>, each with a
  replacement text of one line; a constraint "literal of type string" or "literal of
  type number" contributes no candidate.
\<close>

theorem bool_candidates:
  assumes "attr_Expr attr = LiteralValueExpr val r" and "\<not> IsWhollyKnown val"
    and "as_Expr schema = [LiteralTypeExpr cty_Bool]"
  shows "attrValueCandidatesAtPos X attr schema pos =
      Inr \<lparr>cands_List =
        [\<lparr>cand_Label = ''false'', cand_Detail = FriendlyName X cty_Bool,
           cand_Description = PlainText (FriendlyName X cty_Bool),
           cand_Kind = LiteralValueCandidateKind,
           cand_TextEdit = \<lparr>te_NewText = ''false'', te_Snippet = ''${1:false}'',
                             te_Range = collapsed r\<rparr>\<rparr>,
         \<lparr>cand_Label = ''true'', cand_Detail = FriendlyName X cty_Bool,
           cand_Description = PlainText (FriendlyName X cty_Bool),
           cand_Kind = LiteralValueCandidateKind,
           cand_TextEdit = \<lparr>te_NewText = ''true'', te_Snippet = ''${1:true}'',
                             te_Range = collapsed r\<rparr>\<rparr>],
        cands_IsComplete = True\<rparr>
    \<and> CHR 0x0A \<notin> set ''false'' \<and> CHR 0x0A \<notin> set ''true''
    \<and> constraintToCandidates X (LiteralTypeExpr cty_String) editRng = Inr []
    \<and> constraintToCandidates X (LiteralTypeExpr cty_Number) editRng = Inr []"
  using assms
  by (simp add: attrValueCandidatesAtPos_def expressionCandidatesAtPos_def NewCandidates_def
      typeToCandidates_def valuesToCandidates_bool del: valuesToCandidates.simps)

theorem bool_candidates_witness:
  "map cand_Label (cands_List (projr (attrValueCandidatesAtPos X0 emptyAttr (schemaOf cty_Bool) (pos0 4))))
     = [''false'', ''true'']
   \<and> map (te_Range \<circ> cand_TextEdit)
        (cands_List (projr (attrValueCandidatesAtPos X0 emptyAttr (schemaOf cty_Bool) (pos0 4))))
     = [rng0 4 4, rng0 4 4]"
  using bool_candidates [of emptyAttr "UnknownVal cty_DynamicPseudoType" "rng0 4 4"
      "schemaOf cty_Bool" X0 "pos0 4" "rng0 4 4"]
  by (simp add: emptyAttr_def schemaOf_def LiteralTypeOnly_def collapsed_def rng0_def)

text \<open>
  C10. When the value is a literal that is not wholly known and the attribute has at
  least one constraint, the candidates returned are marked complete; this is so also
  when the list is empty, as it is for a single string-typed or number-typed constraint.
\<close>

theorem complete_when_constrained:
  assumes "attr_Expr attr = LiteralValueExpr val r" and "\<not> IsWhollyKnown val"
    and "as_Expr schema \<noteq> []"
  shows "(\<exists>cs. attrValueCandidatesAtPos X attr schema pos =
            Inr \<lparr>cands_List = cs, cands_IsComplete = True\<rparr>)
    \<and> (as_Expr schema = [LiteralTypeExpr cty_String] \<or> as_Expr schema = [LiteralTypeExpr cty_Number]
        \<longrightarrow> attrValueCandidatesAtPos X attr schema pos =
            Inr \<lparr>cands_List = [], cands_IsComplete = True\<rparr>)"
proof -
  obtain cs where "expressionCandidatesAtPos X (as_Expr schema) (collapsed r)
        = Inr \<lparr>cands_List = cs, cands_IsComplete = True\<rparr>"
    using expressionCandidatesAtPos_range by blast
  with assms have 1: "\<exists>cs. attrValueCandidatesAtPos X attr schema pos =
            Inr \<lparr>cands_List = cs, cands_IsComplete = True\<rparr>"
    by (simp add: attrValueCandidatesAtPos_def)
  have 2: "as_Expr schema = [LiteralTypeExpr cty_String] \<or> as_Expr schema = [LiteralTypeExpr cty_Number]
        \<longrightarrow> attrValueCandidatesAtPos X attr schema pos =
            Inr \<lparr>cands_List = [], cands_IsComplete = True\<rparr>"
    using assms
    by (auto simp add: attrValueCandidatesAtPos_def expressionCandidatesAtPos_def NewCandidates_def
      typeToCandidates_def)
  from 1 2 show ?thesis by blast
qed

theorem complete_when_constrained_witness:
  "attrValueCandidatesAtPos X0 emptyAttr (schemaOf cty_String) (pos0 4)
     = Inr \<lparr>cands_List = [], cands_IsComplete = True\<rparr>"
  using complete_when_constrained [of emptyAttr "UnknownVal cty_DynamicPseudoType" "rng0 4 4"
      "schemaOf cty_String" X0 "pos0 4"]
  by (simp add: emptyAttr_def schemaOf_def LiteralTypeOnly_def)

section \<open>Properties of the constraint engine\<close>

lemma listType_find: "listTypeLiteralConstraint cs = spec_firstOfShape IsListType cs"
  by (induction cs rule: listTypeLiteralConstraint.induct) (simp_all add: spec_firstOfShape_def)

lemma setType_find: "setTypeLiteralConstraint cs = spec_firstOfShape IsSetType cs"
  by (induction cs rule: setTypeLiteralConstraint.induct) (simp_all add: spec_firstOfShape_def)

lemma tupleType_find: "tupleTypeLiteralConstraint cs = spec_firstOfShape IsTupleType cs"
  by (induction cs rule: tupleTypeLiteralConstraint.induct) (simp_all add: spec_firstOfShape_def)

lemma objectType_find: "objectTypeLiteralConstraint cs = spec_firstOfShape IsObjectType cs"
  by (induction cs rule: objectTypeLiteralConstraint.induct) (simp_all add: spec_firstOfShape_def)

lemma mapType_find: "mapTypeLiteralConstraint cs = spec_firstOfShape IsMapType cs"
  by (induction cs rule: mapTypeLiteralConstraint.induct) (simp_all add: spec_firstOfShape_def)

lemma literalExprForType_eq: "literalExprForType vt cs = spec_matchLiteral vt cs"
  by (induction vt cs rule: literalExprForType.induct) (auto simp: spec_matchLiteral_def)

text \<open>
  C1. Against a sequence of constraints, a sequence construction is matched with the
  first list-typed literal constraint, else the first set-typed, else the first
  tuple-typed; a keyed construction with the first object-typed, else the first
  map-typed; a literal with a constraint whose declared type equals the type of its value,
  and with none the outcome is "no schema for literal type" (hover) or no token. The
  hover path and the token path make the same selection.
\<close>

theorem constraint_engine_selection:
  "hoverContentForExpr X (TupleConsExpr exprs r) constraints =
     (case spec_matchSequence constraints of
        Some t \<Rightarrow> hoverContentForValueAndType X (NullVal t) t
      | None \<Rightarrow> Inl (unsupportedExpression (TupleConsExpr exprs r)))
   \<and> tokensForConstrainedExpression (TupleConsExpr exprs r) constraints =
     (case spec_matchSequence constraints of
        Some t \<Rightarrow> tokensForTupleConsExpr exprs t
      | None \<Rightarrow> Inr [])
   \<and> hoverContentForExpr X (ObjectConsExpr items r) constraints =
     (case spec_matchKeyed constraints of
        Some t \<Rightarrow> hoverContentForValueAndType X (NullVal t) t
      | None \<Rightarrow> Inl (unsupportedExpression (ObjectConsExpr items r)))
   \<and> tokensForConstrainedExpression (ObjectConsExpr items r) constraints =
     (case spec_matchKeyed constraints of
        Some t \<Rightarrow> tokensForObjectConsExpr items t
      | None \<Rightarrow> Inr [])
   \<and> hoverContentForExpr X (LiteralValueExpr val r) constraints =
     (case spec_matchLiteral (TypeOf val) constraints of
        Some t \<Rightarrow> hoverContentForValueAndType X val t
      | None \<Rightarrow> Inl (ErrorString (''no schema for literal type ''
                                   @ Quote X (FriendlyName X (TypeOf val)))))
   \<and> tokensForConstrainedExpression (LiteralValueExpr val r) constraints =
     (case spec_matchLiteral (TypeOf val) constraints of
        Some t \<Rightarrow> tokenForTypedExpression (LiteralValueExpr val r) t
      | None \<Rightarrow> Inr [])"
  unfolding hoverContentForExpr.simps tokensForConstrainedExpression.simps
    listType_find setType_find tupleType_find objectType_find mapType_find literalExprForType_eq
    spec_matchSequence_def spec_matchKeyed_def
  by (auto simp: spec_matchLiteral_def split: option.splits simp del: tokenForTypedExpression.simps tokensForObjectConsExpr.simps tokensForTupleConsExpr.simps)

section \<open>Queries without a schema\<close>

text \<open>
  C8, as stated, fails: with no schema installed, the semantic tokens of a loaded file
  are the empty list, not the no-schema error.
\<close>

theorem no_schema_tokens_counterexample:
  "dec_rootSchema emptyFileDecoder = None
   \<and> fileByName emptyFileDecoder ''test.tf'' = Inr \<lparr>file_Body = SyntaxBody (Body [] [] (rng0 0 0))\<rparr>
   \<and> bodyForFileAndPos ''test.tf'' \<lparr>file_Body = SyntaxBody (Body [] [] (rng0 0 0))\<rparr> InitialPos
       = Inr (Body [] [] (rng0 0 0))
   \<and> SemanticTokensInFile D0 emptyFileDecoder ''test.tf'' = Inr []
   \<and> SemanticTokensInFile D0 emptyFileDecoder ''test.tf'' \<noteq> Inl NoSchemaError"
  by (simp add: emptyFileDecoder_def fileByName_def bodyForFileAndPos_def SemanticTokensInFile_def)

text \<open>
  C8, amended. For a loaded document with a body of the syntax tree and no schema
  installed, hover fails with the no-schema error, and the semantic tokens are the empty
  list, returned without error.
\<close>

theorem no_schema:
  assumes "fileByName d filename = Inr f"
    and "bodyForFileAndPos filename f pos = Inr rootBody"
    and "bodyForFileAndPos filename f InitialPos = Inr body"
    and "dec_rootSchema d = None"
  shows "HoverAtPos D X d filename pos = Inl NoSchemaError
       \<and> SemanticTokensInFile D d filename = Inr []"
  using assms by (simp add: HoverAtPos_def SemanticTokensInFile_def)

theorem no_schema_witness:
  "HoverAtPos D0 X0 emptyFileDecoder ''test.tf'' (pos0 0) = Inl NoSchemaError
   \<and> SemanticTokensInFile D0 emptyFileDecoder ''test.tf'' = Inr []"
  using no_schema [of emptyFileDecoder "''test.tf''" "\<lparr>file_Body = SyntaxBody (Body [] [] (rng0 0 0))\<rparr>"
      "pos0 0" "Body [] [] (rng0 0 0)" "Body [] [] (rng0 0 0)" D0 X0]
  by (simp add: emptyFileDecoder_def fileByName_def bodyForFileAndPos_def)

section \<open>Hover on a label beyond the label schemas\<close>

lemma hoverAttrs_none:
  "\<forall>(n, a)\<in>set attrs. \<not> ContainsPos (attr_SrcRange a) pos \<Longrightarrow>
   hoverAttrs D X filename attrs bodySchema pos = None"
  by (induction attrs) auto

lemma hoverBlocks_skip:
  "\<forall>b\<in>set pre. \<not> ContainsPos (BlockRange b) pos \<Longrightarrow>
   hoverBlocks D X filename (pre @ blocks) bodySchema pos
     = hoverBlocks D X filename blocks bodySchema pos"
  by (induction pre) auto

lemma hoverLabels_out_of_range:
  assumes "i < length labelRanges" and "ContainsPos (labelRanges ! i) pos"
    and "\<forall>j<i. \<not> ContainsPos (labelRanges ! j) pos"
    and "length (bl_Labels bSchema) \<le> k + i"
    and "k + i < length (blk_Labels block)"
  shows "hoverLabels D X filename k labelRanges block bSchema pos =
     Some (Inl (PositionalError filename pos
                  (''unexpected label ('' @ show_nat (k + i) @ '') ''
                     @ Quote X (blk_Labels block ! (k + i)))))"
  using assms
proof (induction labelRanges arbitrary: i k)
  case Nil
  then show ?case by simp
next
  case (Cons labelRange rest)
  show ?case
  proof (cases i)
    case 0
    with Cons.prems show ?thesis by simp
  next
    case (Suc i')
    have not0: "\<not> ContainsPos labelRange pos"
      using Cons.prems(3) Suc by auto
    have "hoverLabels D X filename (Suc k) rest block bSchema pos =
        Some (Inl (PositionalError filename pos
                  (''unexpected label ('' @ show_nat (Suc k + i') @ '') ''
                     @ Quote X (blk_Labels block ! (Suc k + i')))))"
    proof (rule Cons.IH)
      show "i' < length rest" using Cons.prems(1) Suc by simp
      show "ContainsPos (rest ! i') pos" using Cons.prems(2) Suc by simp
      show "\<forall>j<i'. \<not> ContainsPos (rest ! j) pos"
        using Cons.prems(3) Suc by auto
      show "length (bl_Labels bSchema) \<le> Suc k + i'" using Cons.prems(4) Suc by simp
      show "Suc k + i' < length (blk_Labels block)" using Cons.prems(5) Suc by simp
    qed
    with not0 Suc show ?thesis by simp
  qed
qed

text \<open>
  C9, as stated, fails: hover inside the second label of a block whose schema declares
  one label gives no hover content; it fails with a positional error.
\<close>

theorem hover_label_beyond_schema_counterexample:
  "ContainsPos (blk_LabelRanges labelBlock ! 1) (pos0 25)
   \<and> hoverAtPos D0 X0 labelBody (Some oneLabelSchema) (pos0 25) =
     Inl (PositionalError ''test.tf'' (pos0 25) (''unexpected label (1) '' @ DQ @ ''x'' @ DQ))"
  by (simp add: labelBlock_def labelBody_def oneLabelSchema_def pos0_def rng0_def ContainsPos_def
      BlockRange_def RangeBetween_def X0_def)

text \<open>
  C9, amended. When the position is inside label \<open>i\<close> of a block of a known type, outside
  its type keyword, and the block schema declares at most \<open>i\<close> labels, hover fails with the
  positional error "unexpected label (i)" followed by the quoted text of the label.
\<close>

theorem hover_label_beyond_schema:
  assumes "\<forall>(n, a)\<in>set (body_Attributes body). \<not> ContainsPos (attr_SrcRange a) pos"
    and "body_Blocks body = pre @ block # rest"
    and "\<forall>b\<in>set pre. \<not> ContainsPos (BlockRange b) pos"
    and "ContainsPos (BlockRange block) pos"
    and "map_of (bs_Blocks bodySchema) (blk_Type block) = Some bSchema"
    and "\<not> ContainsPos (blk_TypeRange block) pos"
    and "i < length (blk_LabelRanges block)"
    and "ContainsPos (blk_LabelRanges block ! i) pos"
    and "\<forall>j<i. \<not> ContainsPos (blk_LabelRanges block ! j) pos"
    and "length (bl_Labels bSchema) \<le> i"
    and "i < length (blk_Labels block)"
  shows "hoverAtPos D X body (Some bodySchema) pos =
     Inl (PositionalError (Filename (body_SrcRange body)) pos
            (''unexpected label ('' @ show_nat i @ '') '' @ Quote X (blk_Labels block ! i)))"
proof -
  let ?f = "Filename (body_SrcRange body)"
  have a: "hoverAttrs D X ?f (body_Attributes body) bodySchema pos = None"
    using assms(1) by (rule hoverAttrs_none)
  have l: "hoverLabels D X ?f 0 (blk_LabelRanges block) block bSchema pos =
     Some (Inl (PositionalError ?f pos
                  (''unexpected label ('' @ show_nat (0 + i) @ '') ''
                     @ Quote X (blk_Labels block ! (0 + i)))))"
    using assms(7-11) by (intro hoverLabels_out_of_range) simp_all
  have b: "hoverBlocks D X ?f (body_Blocks body) bodySchema pos =
     Some (Inl (PositionalError ?f pos
                  (''unexpected label ('' @ show_nat i @ '') ''
                     @ Quote X (blk_Labels block ! i))))"
    using assms(2-6) l by (simp add: hoverBlocks_skip)
  show ?thesis using a b by simp
qed

theorem hover_label_beyond_schema_witness:
  "hoverAtPos D0 X0 labelBody (Some oneLabelSchema) (pos0 25) =
     Inl (PositionalError ''test.tf'' (pos0 25) (''unexpected label (1) '' @ DQ @ ''x'' @ DQ))"
  using hover_label_beyond_schema [of labelBody "pos0 25" "[]" labelBlock "[]" oneLabelSchema
      "BlockSchema [\<lparr>ls_Name = ''type'', ls_Description = NoMarkup, ls_IsDepKey = False\<rparr>]
          None [] False NoMarkup" 1 D0 X0]
  by (simp add: labelBlock_def labelBody_def oneLabelSchema_def pos0_def rng0_def ContainsPos_def
      BlockRange_def RangeBetween_def X0_def)

section \<open>Properties of the token emitter\<close>

lemma expr_result_Inr [simp]: "expr_result (Inr ts) = list_all value_token ts"
  by (simp add: expr_result_def)

lemma expr_result_Inl [simp]: "expr_result (Inl e) = is_panic e"
  by (simp add: expr_result_def)

lemma AsString_panic: "AsString v = Inl e \<Longrightarrow> is_panic e"
  by (cases v) auto

lemma tokensForLiteralValueExpr_value: "list_all value_token (tokensForLiteralValueExpr r t)"
  by (simp add: tokensForLiteralValueExpr_def value_token_def)

lemma typed_expression_result:
  "expr_result (tokenForTypedExpression expr valType)"
  "expr_result (tokensForObjectConsExpr items exprType)"
  "expr_result (tokensForObjectItems items attrTypes)"
  "expr_result (tokensForMapItems items elemType)"
  "expr_result (tokensForTupleConsExpr exprs exprType)"
  "expr_result (tokensForTupleElems i exprs exprType)"
proof (induction expr valType and items exprType and items attrTypes and items elemType
    and exprs exprType and i exprs exprType
    rule: tokenForTypedExpression_tokensForObjectConsExpr_tokensForObjectItems_tokensForMapItems_tokensForTupleConsExpr_tokensForTupleElems.induct)
  case (1 val r valType)
  then show ?case by (simp add: tokensForLiteralValueExpr_value)
next
  case (7 items exprType)
  then show ?case by (cases exprType) simp_all
next
  case (9 key keyRange valueExpr rest attrTypes)
  then show ?case
    by (fastforce simp: value_token_def dest: AsString_panic split: sum.splits option.splits)
next
  case (11 key keyRange valueExpr rest elemType)
  then show ?case
    by (fastforce simp: value_token_def split: sum.splits)
next
  case (14 i e rest exprType)
  then show ?case
    by (cases exprType) (fastforce split: sum.splits)+
qed simp_all

lemma constrained_expression_result:
  "expr_result (tokensForConstrainedExpression expr constraints)"
proof (induction expr constraints rule: tokensForConstrainedExpression.induct)
  case (4 exprs r constraints)
  then show ?case
    by (simp add: typed_expression_result split: option.splits del: tokensForTupleConsExpr.simps)
next
  case (5 items r constraints)
  then show ?case
    by (simp add: typed_expression_result split: option.splits del: tokensForObjectConsExpr.simps)
next
  case (6 val r constraints)
  then show ?case
    using typed_expression_result(1) [of "LiteralValueExpr val r" "TypeOf val"]
    by (simp split: option.splits del: tokenForTypedExpression.simps)
qed simp_all

lemma value_not_structural: "value_token t \<Longrightarrow> \<not> structural t"
  by (auto simp: value_token_def structural_def)

lemma filter_structural_values: "list_all value_token ts \<Longrightarrow> filter structural ts = []"
  by (induction ts) (auto simp: value_not_structural)

lemma list_all_value_weaken:
  "list_all value_token ts \<Longrightarrow> list_all (\<lambda>t. structural t \<or> value_token t) ts"
  by (induction ts) auto

lemma spec_attrTokens_Nil [simp]: "spec_attrTokens [] bodySchema = []"
  by (simp add: spec_attrTokens_def)

lemma spec_attrTokens_Cons [simp]:
  "spec_attrTokens ((name, attr) # attrs) bodySchema =
     (if attrSchemaFor bodySchema name \<noteq> None
      then (TokenAttrName, attr_NameRange attr) # spec_attrTokens attrs bodySchema
      else spec_attrTokens attrs bodySchema)"
  by (simp add: spec_attrTokens_def)

lemma tokensForAttrs_result:
  "case tokensForAttrs attrs bodySchema isDependent of
     Inl e \<Rightarrow> is_panic e
   | Inr ts \<Rightarrow>
       map tkey (filter structural ts) = spec_attrTokens attrs bodySchema
       \<and> list_all (\<lambda>t. structural t \<or> value_token t) ts
       \<and> (\<forall>t\<in>set ts. st_Type t = TokenAttrName \<longrightarrow> isDependent
             \<longrightarrow> TokenModifierDependent \<in> set (st_Modifiers t))"
proof (induction attrs)
  case Nil
  then show ?case by simp
next
  case (Cons a attrs)
  obtain name attr where a: "a = (name, attr)" by (cases a)
  show ?case
  proof (cases "attrSchemaFor bodySchema name")
    case None
    with Cons a show ?thesis by (simp split: sum.splits)
  next
    case (Some attrSchema)
    have e: "expr_result (tokensForConstrainedExpression (attr_Expr attr) (as_Expr attrSchema))"
      by (rule constrained_expression_result)
    show ?thesis
    proof (cases "tokensForConstrainedExpression (attr_Expr attr) (as_Expr attrSchema)")
      case (Inl err)
      with e Some a show ?thesis by simp
    next
      case (Inr ets)
      with e have v: "list_all value_token ets" by simp
      show ?thesis
      proof (cases "tokensForAttrs attrs bodySchema isDependent")
        case (Inl err)
        with Cons Some a Inr show ?thesis by simp
      next
        case inr: (Inr ts)
        have nv: "\<forall>t\<in>set ets. st_Type t \<noteq> TokenAttrName"
          using v by (auto simp: list_all_iff value_token_def)
        have w: "list_all (\<lambda>t. structural t \<or> value_token t) ets"
          using v by (rule list_all_value_weaken)
        have f: "filter structural ets = []"
          using v by (rule filter_structural_values)
        define tok where "tok = \<lparr>st_Type = TokenAttrName,
            st_Modifiers = tokenModifiers isDependent (as_IsDeprecated attrSchema),
            st_Range = attr_NameRange attr\<rparr>"
        have st: "structural tok" and k: "tkey tok = (TokenAttrName, attr_NameRange attr)"
          and m: "isDependent \<longrightarrow> TokenModifierDependent \<in> set (st_Modifiers tok)"
          by (simp_all add: tok_def structural_def tkey_def tokenModifiers_def)
        have r: "tokensForAttrs (a # attrs) bodySchema isDependent = Inr (tok # ets @ ts)"
          by (simp add: a Some Inr inr tok_def)
        from Cons inr nv w f st k m show ?thesis
          unfolding r by (auto simp: a Some)
      qed
    qed
  qed
qed

lemma tokensForLabels_result:
  "map tkey (tokensForLabels i labelRanges blockSchema)
     = map (\<lambda>r. (TokenBlockLabel, r)) (take (length (bl_Labels blockSchema) - i) labelRanges)
   \<and> list_all structural (tokensForLabels i labelRanges blockSchema)"
proof (induction labelRanges arbitrary: i)
  case Nil
  then show ?case by simp
next
  case (Cons r rest)
  show ?case
  proof (cases "i < length (bl_Labels blockSchema)")
    case True
    then have "length (bl_Labels blockSchema) - i = Suc (length (bl_Labels blockSchema) - Suc i)"
      by simp
    with True Cons [of "Suc i"] show ?thesis
      by (simp add: tkey_def structural_def)
  next
    case False
    with Cons [of "Suc i"] show ?thesis by simp
  qed
qed

lemma filter_structural_all: "list_all structural ts \<Longrightarrow> filter structural ts = ts"
  by (induction ts) auto

lemma list_all_structural_weaken:
  "list_all structural ts \<Longrightarrow> list_all (\<lambda>t. structural t \<or> value_token t) ts"
  by (induction ts) auto

lemma body_result_Inr:
  "body_result expected (Inr ts) \<longleftrightarrow>
     map tkey (filter structural ts) = expected \<and> list_all (\<lambda>t. structural t \<or> value_token t) ts"
  by (simp add: body_result_def)

lemma body_result_Inl: "body_result expected (Inl e) \<longleftrightarrow> is_panic e"
  by (simp add: body_result_def)

lemma blocks_result:
  assumes "\<And>block b s dep. block \<in> set blocks \<Longrightarrow> blk_Body block = Some b \<Longrightarrow>
      body_result (spec_bodyTokens D b s) (tokensForBody D b s dep)"
  shows "body_result (spec_blockTokens D blocks bodySchema)
           (tokensForBlocks D blocks bodySchema isDependent)"
  using assms
proof (induction blocks)
  case Nil
  then show ?case by (simp add: body_result_Inr)
next
  case (Cons block rest)
  have rest: "body_result (spec_blockTokens D rest bodySchema)
           (tokensForBlocks D rest bodySchema isDependent)"
    using Cons.prems by (intro Cons.IH) auto
  show ?case
  proof (cases "map_of (bs_Blocks bodySchema) (blk_Type block)")
    case None
    with rest show ?thesis by simp
  next
    case (Some blockSchema)
    define tok where "tok = \<lparr>st_Type = TokenBlockType,
        st_Modifiers = tokenModifiers isDependent (bl_IsDeprecated blockSchema),
        st_Range = blk_TypeRange block\<rparr>"
    have tok: "structural tok" "tkey tok = (TokenBlockType, blk_TypeRange block)"
      by (simp_all add: tok_def structural_def tkey_def)
    define labels where "labels = tokensForLabels 0 (blk_LabelRanges block) blockSchema"
    have labels: "map tkey (filter structural labels) = spec_labelTokens (blk_LabelRanges block) blockSchema"
      "list_all (\<lambda>t. structural t \<or> value_token t) labels"
      using tokensForLabels_result [of 0 "blk_LabelRanges block" blockSchema]
      by (simp_all add: labels_def spec_labelTokens_def filter_structural_all
          list_all_structural_weaken)
    show ?thesis
    proof (cases "blk_Body block")
      case None
      show ?thesis
      proof (cases "DependentBodySchema D blockSchema (dependencyKeysFromBlock D block blockSchema)")
        case none: None
        from rest tok labels show ?thesis
          by (simp add: Some None none body_result_def tok_def [symmetric] labels_def [symmetric]
              split: sum.splits)
      next
        case (Some depSchema)
        then show ?thesis
          by (simp add: \<open>map_of (bs_Blocks bodySchema) (blk_Type block) = Some blockSchema\<close>
              None body_result_Inl)
      qed
    next
      case body: (Some b)
      have plain: "body_result (spec_bodyTokens D b (bl_Body blockSchema))
          (tokensForBody D b (bl_Body blockSchema) False)"
        by (rule Cons.prems [of block b]) (simp_all add: body)
      show ?thesis
      proof (cases "DependentBodySchema D blockSchema (dependencyKeysFromBlock D block blockSchema)")
        case None
        from rest tok labels plain show ?thesis
          by (simp add: Some None body body_result_def tok_def [symmetric] labels_def [symmetric]
              split: sum.splits)
      next
        case dep: (Some depSchema)
        have deps: "body_result (spec_bodyTokens D b (Some depSchema))
            (tokensForBody D b (Some depSchema) True)"
          by (rule Cons.prems [of block b]) (simp_all add: body)
        from rest tok labels plain deps show ?thesis
          by (simp add: Some dep body body_result_def tok_def [symmetric] labels_def [symmetric]
              split: sum.splits del: tokensForBody.simps spec_bodyTokens.simps)
      qed
    qed
  qed
qed

lemma body_result_all:
  "body_result (spec_bodyTokens D body s) (tokensForBody D body s isDependent)"
proof -
  have "\<forall>s dep. body_result (spec_bodyTokens D body s) (tokensForBody D body s dep)"
  proof (induction body
      rule: Body.induct [where ?P2.0 = "\<lambda>block. \<forall>b s dep. blk_Body block = Some b \<longrightarrow>
          body_result (spec_bodyTokens D b s) (tokensForBody D b s dep)"])
    case (Body attrs blocks r)
    show ?case
    proof (intro allI)
      fix s dep
      show "body_result (spec_bodyTokens D (Body attrs blocks r) s)
              (tokensForBody D (Body attrs blocks r) s dep)"
      proof (cases s)
        case None
        then show ?thesis by (simp add: body_result_Inr)
      next
        case (Some bodySchema)
        have b: "body_result (spec_blockTokens D blocks bodySchema)
                   (tokensForBlocks D blocks bodySchema dep)"
          using Body by (intro blocks_result) auto
        from b tokensForAttrs_result [of attrs bodySchema dep] show ?thesis
          by (simp add: Some body_result_def split: sum.splits)
      qed
    qed
  next
    case (Block ty labels body tr lrs obr cbr)
    then show ?case by auto
  qed
  then show ?thesis by blast
qed

text \<open>
  A walk returns a token list exactly when the conditions above hold.
\<close>

lemma returns_simps [simp]: "returns (Inr x)" "\<not> returns (Inl e)"
  by (simp_all add: returns_def)

lemma typed_returns:
  "returns (tokenForTypedExpression expr valType) = noPanicTyped expr valType"
  "returns (tokensForObjectConsExpr items exprType) = noPanicTyped (ObjectConsExpr items r) exprType"
  "returns (tokensForObjectItems items attrTypes) = noPanicObjectItems items attrTypes"
  "returns (tokensForMapItems items elemType) = noPanicMapItems items elemType"
  "returns (tokensForTupleConsExpr exprs exprType) = noPanicTupleElems 0 exprs exprType"
  "returns (tokensForTupleElems i exprs exprType) = noPanicTupleElems i exprs exprType"
proof (induction expr valType and items exprType and items attrTypes and items elemType
    and exprs exprType and i exprs exprType
    rule: tokenForTypedExpression_tokensForObjectConsExpr_tokensForObjectItems_tokensForMapItems_tokensForTupleConsExpr_tokensForTupleElems.induct)
  case (7 items exprType)
  then show ?case by (cases exprType) simp_all
next
  case (9 key keyRange valueExpr rest attrTypes)
  show ?case
  proof (cases key)
    case (StringVal k)
    show ?thesis
    proof (cases "map_of attrTypes k")
      case None
      with 9 StringVal show ?thesis by simp
    next
      case (Some valType)
      have a: "returns (tokenForTypedExpression valueExpr valType) = noPanicTyped valueExpr valType"
        using 9(2) [of k valType] StringVal Some by simp
      show ?thesis
      proof (cases "tokenForTypedExpression valueExpr valType")
        case (Inl e)
        with a StringVal Some show ?thesis by simp
      next
        case (Inr vts)
        have b: "returns (tokensForObjectItems rest attrTypes) = noPanicObjectItems rest attrTypes"
          using 9(3) [of k valType vts] StringVal Some Inr by simp
        from a b Inr StringVal Some show ?thesis
          by (cases "tokensForObjectItems rest attrTypes") simp_all
      qed
    qed
  next
    case (NullVal t)
    with 9 show ?thesis by (cases "t = cty_String") auto
  qed (use 9 in simp_all)
next
  case (11 key keyRange valueExpr rest elemType)
  then show ?case
    by (cases "tokenForTypedExpression valueExpr elemType";
        cases "tokensForMapItems rest elemType") auto
next
  case (14 i e rest exprType)
  show ?case
  proof (cases "\<exists>ts. exprType = cty_Tuple ts \<and> \<not> i < length ts")
    case True
    then show ?thesis by auto
  next
    case False
    define elemType where "elemType = (case exprType of cty_List t \<Rightarrow> t | cty_Set t \<Rightarrow> t
        | cty_Tuple ts \<Rightarrow> ts ! i | _ \<Rightarrow> cty_NilType)"
    have sel: "(case exprType of
              cty_List elemType \<Rightarrow> Inr elemType
            | cty_Set elemType \<Rightarrow> Inr elemType
            | cty_Tuple elemTypes \<Rightarrow>
                if i < length elemTypes then Inr (elemTypes ! i)
                else Inl (RuntimePanic ''index out of range'')
            | _ \<Rightarrow> Inr cty_NilType) = (Inr elemType :: error + cty_type)"
      using False by (cases exprType) (simp_all add: elemType_def)
    have ok: "(case exprType of
         cty_List elemType \<Rightarrow> noPanicTyped e elemType
       | cty_Set elemType \<Rightarrow> noPanicTyped e elemType
       | cty_Tuple elemTypes \<Rightarrow> i < length elemTypes \<and> noPanicTyped e (elemTypes ! i)
       | _ \<Rightarrow> noPanicTyped e cty_NilType) = noPanicTyped e elemType"
      using False by (cases exprType) (simp_all add: elemType_def)
    have a: "returns (tokenForTypedExpression e elemType) = noPanicTyped e elemType"
      using 14(1) [OF sel] .
    show ?thesis
    proof (cases "tokenForTypedExpression e elemType")
      case (Inl err)
      with a sel ok show ?thesis by simp
    next
      case (Inr ets)
      have b: "returns (tokensForTupleElems (i + 1) rest exprType)
          = noPanicTupleElems (i + 1) rest exprType"
        using 14(2) [OF sel Inr] .
      from a b Inr sel ok show ?thesis
        by (cases "tokensForTupleElems (i + 1) rest exprType") simp_all
    qed
  qed
qed simp_all

lemma constrained_returns:
  "returns (tokensForConstrainedExpression expr constraints) = noPanicConstrained expr constraints"
proof (induction expr constraints rule: tokensForConstrainedExpression.induct)
  case (4 exprs r constraints)
  show ?case
    unfolding tokensForConstrainedExpression.simps noPanicConstrained.simps
      listType_find setType_find tupleType_find spec_matchSequence_def
    by (simp add: typed_returns split: option.splits del: tokensForTupleConsExpr.simps)
next
  case (5 items r constraints)
  show ?case
    unfolding tokensForConstrainedExpression.simps noPanicConstrained.simps
      objectType_find mapType_find spec_matchKeyed_def
    by (simp add: typed_returns(2) [of _ _ r] split: option.splits
        del: tokensForObjectConsExpr.simps noPanicTyped.simps)
next
  case (6 val r constraints)
  show ?case by (simp split: option.splits)
qed simp_all

lemma attrs_returns:
  "returns (tokensForAttrs attrs bodySchema isDependent) = noPanicAttrs attrs bodySchema"
proof (induction attrs)
  case Nil
  then show ?case by (simp add: noPanicAttrs_def)
next
  case (Cons a attrs)
  obtain name attr where a: "a = (name, attr)" by (cases a)
  show ?case
  proof (cases "attrSchemaFor bodySchema name")
    case None
    with Cons a show ?thesis by (simp add: noPanicAttrs_def)
  next
    case (Some attrSchema)
    have e: "returns (tokensForConstrainedExpression (attr_Expr attr) (as_Expr attrSchema))
        = noPanicConstrained (attr_Expr attr) (as_Expr attrSchema)"
      by (rule constrained_returns)
    from Cons a Some e show ?thesis
      by (cases "tokensForConstrainedExpression (attr_Expr attr) (as_Expr attrSchema)";
          cases "tokensForAttrs attrs bodySchema isDependent")
         (simp_all add: noPanicAttrs_def)
  qed
qed

lemma blocks_returns:
  assumes "\<And>block b s dep. block \<in> set blocks \<Longrightarrow> blk_Body block = Some b \<Longrightarrow>
      returns (tokensForBody D b s dep) = noPanicBody D b s"
  shows "returns (tokensForBlocks D blocks bodySchema isDependent) = noPanicBlocks D blocks bodySchema"
  using assms
proof (induction blocks)
  case Nil
  then show ?case by simp
next
  case (Cons block rest)
  have rest: "returns (tokensForBlocks D rest bodySchema isDependent) = noPanicBlocks D rest bodySchema"
    using Cons.prems by (intro Cons.IH) auto
  show ?case
  proof (cases "map_of (bs_Blocks bodySchema) (blk_Type block)")
    case None
    with rest show ?thesis by simp
  next
    case (Some blockSchema)
    show ?thesis
    proof (cases "blk_Body block")
      case None
      from rest show ?thesis
        by (cases "DependentBodySchema D blockSchema (dependencyKeysFromBlock D block blockSchema)";
            cases "tokensForBlocks D rest bodySchema isDependent")
           (simp_all add: Some None)
    next
      case body: (Some b)
      have plain: "returns (tokensForBody D b (bl_Body blockSchema) False)
          = noPanicBody D b (bl_Body blockSchema)"
        by (rule Cons.prems [of block b]) (simp_all add: body)
      show ?thesis
      proof (cases "DependentBodySchema D blockSchema (dependencyKeysFromBlock D block blockSchema)")
        case None
        from rest plain show ?thesis
          by (cases "tokensForBody D b (bl_Body blockSchema) False";
              cases "tokensForBlocks D rest bodySchema isDependent")
             (simp_all add: Some None body del: tokensForBody.simps noPanicBody.simps)
      next
        case dep: (Some depSchema)
        have deps: "returns (tokensForBody D b (Some depSchema) True)
            = noPanicBody D b (Some depSchema)"
          by (rule Cons.prems [of block b]) (simp_all add: body)
        from rest plain deps show ?thesis
          by (cases "tokensForBody D b (bl_Body blockSchema) False";
              cases "tokensForBody D b (Some depSchema) True";
              cases "tokensForBlocks D rest bodySchema isDependent")
             (simp_all add: Some dep body del: tokensForBody.simps noPanicBody.simps)
      qed
    qed
  qed
qed

lemma body_returns:
  "returns (tokensForBody D body s isDependent) = noPanicBody D body s"
proof -
  have "\<forall>s dep. returns (tokensForBody D body s dep) = noPanicBody D body s"
  proof (induction body
      rule: Body.induct [where ?P2.0 = "\<lambda>block. \<forall>b s dep. blk_Body block = Some b \<longrightarrow>
          returns (tokensForBody D b s dep) = noPanicBody D b s"])
    case (Body attrs blocks r)
    show ?case
    proof (intro allI)
      fix s dep
      show "returns (tokensForBody D (Body attrs blocks r) s dep)
              = noPanicBody D (Body attrs blocks r) s"
      proof (cases s)
        case None
        then show ?thesis by simp
      next
        case (Some bodySchema)
        have b: "returns (tokensForBlocks D blocks bodySchema dep) = noPanicBlocks D blocks bodySchema"
          using Body by (intro blocks_returns) auto
        from b attrs_returns [of attrs bodySchema dep] show ?thesis
          by (cases "tokensForAttrs attrs bodySchema dep";
              cases "tokensForBlocks D blocks bodySchema dep")
             (simp_all add: Some)
      qed
    qed
  next
    case (Block ty labels body tr lrs obr cbr)
    then show ?case by auto
  qed
  then show ?thesis by blast
qed

section \<open>The token emitter on a document\<close>

lemma show_nat_0 [simp]: "show_nat 0 = ''0''"
  by code_simp

lemma aws_dependent_schema:
  "DependentBodySchema D0 (resourceSchema ownBody)
     (dependencyKeysFromBlock D0 awsBlock (resourceSchema ownBody)) = Some instanceTypeSchema"
  by (simp add: D0_def specDependentBodySchema_def specDependencyKeysFromBlock_def
      specNewSchemaKey_def resourceSchema_def awsBlock_def)

lemma aws_inner_dependent:
  "tokensForBody D0 awsInner (Some instanceTypeSchema) True =
     Inr [tokenAt TokenAttrName [TokenModifierDependent] 33 46, tokenAt TokenString [] 50 58]"
  by (simp add: awsInner_def instanceTypeSchema_def attrSchemaFor_def schemaOf_def
      LiteralTypeOnly_def tokensForLiteralValueExpr_def tokenModifiers_def tokenAt_def)

lemma aws_inner_plain:
  "tokensForBody D0 awsInner (Some instanceTypeSchema) False =
     Inr [tokenAt TokenAttrName [] 33 46, tokenAt TokenString [] 50 58]"
  by (simp add: awsInner_def instanceTypeSchema_def attrSchemaFor_def schemaOf_def
      LiteralTypeOnly_def tokensForLiteralValueExpr_def tokenModifiers_def tokenAt_def)

lemma aws_body_tokens:
  "tokensForBody D0 awsBody (Some (awsSchema ownBody)) False =
     (case tokensForBody D0 awsInner ownBody False of
        Inl e \<Rightarrow> Inl e
      | Inr plain \<Rightarrow>
          Inr (tokenAt TokenBlockType [] 0 8 # tokenAt TokenBlockLabel [TokenModifierDependent] 9 23
               # tokenAt TokenBlockLabel [] 24 30 # plain
               @ [tokenAt TokenAttrName [TokenModifierDependent] 33 46, tokenAt TokenString [] 50 58]))"
proof -
  have b: "map_of (bs_Blocks (awsSchema ownBody)) (blk_Type awsBlock) = Some (resourceSchema ownBody)"
    by (simp add: awsSchema_def awsBlock_def)
  have l: "tokensForLabels 0 (blk_LabelRanges awsBlock) (resourceSchema ownBody)
      = [tokenAt TokenBlockLabel [TokenModifierDependent] 9 23, tokenAt TokenBlockLabel [] 24 30]"
    by (simp add: awsBlock_def resourceSchema_def tokenAt_def)
  have i: "blk_Body awsBlock = Some awsInner" "bl_Body (resourceSchema ownBody) = ownBody"
    "bl_IsDeprecated (resourceSchema ownBody) = False" "blk_TypeRange awsBlock = rng0 0 8"
    by (simp_all add: awsBlock_def resourceSchema_def)
  have blocks: "tokensForBlocks D0 [awsBlock] (awsSchema ownBody) False =
     (case tokensForBody D0 awsInner ownBody False of
        Inl e \<Rightarrow> Inl e
      | Inr plain \<Rightarrow>
          Inr (tokenAt TokenBlockType [] 0 8 # tokenAt TokenBlockLabel [TokenModifierDependent] 9 23
               # tokenAt TokenBlockLabel [] 24 30 # plain
               @ [tokenAt TokenAttrName [TokenModifierDependent] 33 46, tokenAt TokenString [] 50 58]))"
    apply (simp only: tokensForBlocks.simps b option.case i aws_dependent_schema
        aws_inner_dependent l sum.case)
    apply (simp add: tokenModifiers_def tokenAt_def split: sum.splits del: tokensForBody.simps)
    done
  have body: "tokensForBody D0 awsBody (Some (awsSchema ownBody)) False
      = tokensForBlocks D0 [awsBlock] (awsSchema ownBody) False"
    by (simp add: awsBody_def split: sum.splits del: tokensForBlocks.simps)
  show ?thesis
    by (simp only: body blocks)
qed

lemma aws_file:
  "fileByName (awsDecoder ownBody) ''test.tf'' = Inr \<lparr>file_Body = SyntaxBody awsBody\<rparr>"
  "bodyForFileAndPos ''test.tf'' \<lparr>file_Body = SyntaxBody awsBody\<rparr> InitialPos = Inr awsBody"
  "dec_rootSchema (awsDecoder ownBody) = Some (awsSchema ownBody)"
  by (simp_all add: awsDecoder_def fileByName_def bodyForFileAndPos_def)

lemma aws_tokens_none:
  "SemanticTokensInFile D0 (awsDecoder None) ''test.tf'' =
     Inr [tokenAt TokenBlockType [] 0 8, tokenAt TokenBlockLabel [TokenModifierDependent] 9 23,
          tokenAt TokenBlockLabel [] 24 30,
          tokenAt TokenAttrName [TokenModifierDependent] 33 46, tokenAt TokenString [] 50 58]"
  by (simp add: SemanticTokensInFile_def aws_file aws_body_tokens sortTokens_def tokenAt_def rng0_def
      del: tokensForBody.simps(2))

lemma aws_tokens_both:
  "SemanticTokensInFile D0 (awsDecoder (Some instanceTypeSchema)) ''test.tf'' =
     Inr [tokenAt TokenBlockType [] 0 8, tokenAt TokenBlockLabel [TokenModifierDependent] 9 23,
          tokenAt TokenBlockLabel [] 24 30,
          tokenAt TokenAttrName [] 33 46, tokenAt TokenAttrName [TokenModifierDependent] 33 46,
          tokenAt TokenString [] 50 58, tokenAt TokenString [] 50 58]"
  by (simp add: SemanticTokensInFile_def aws_file aws_body_tokens aws_inner_plain sortTokens_def
      tokenAt_def rng0_def del: tokensForBody.simps)

lemma aws_root_tokens:
  "tokensForBody D0 awsBody (Some (awsSchema (Some instanceTypeSchema))) False =
     Inr [tokenAt TokenBlockType [] 0 8, tokenAt TokenBlockLabel [TokenModifierDependent] 9 23,
          tokenAt TokenBlockLabel [] 24 30,
          tokenAt TokenAttrName [] 33 46, tokenAt TokenString [] 50 58,
          tokenAt TokenAttrName [TokenModifierDependent] 33 46, tokenAt TokenString [] 50 58]"
  by (simp add: aws_body_tokens aws_inner_plain del: tokensForBody.simps)

lemma aws_structure:
  "body_Blocks awsBody = [] @ awsBlock # []"
  "map_of (bs_Blocks (awsSchema ownBody)) (blk_Type awsBlock) = Some (resourceSchema ownBody)"
  "blk_Body awsBlock = Some awsInner"
  by (simp_all add: awsBody_def awsSchema_def awsBlock_def)

lemma decoderOf_file:
  "fileByName (decoderOf body rootSchema) ''test.tf'' = Inr \<lparr>file_Body = SyntaxBody body\<rparr>"
  "bodyForFileAndPos ''test.tf'' \<lparr>file_Body = SyntaxBody body\<rparr> InitialPos = Inr body"
  "dec_rootSchema (decoderOf body rootSchema) = Some rootSchema"
  by (simp_all add: decoderOf_def fileByName_def bodyForFileAndPos_def)






lemma pair_walk:
  "tokensForBody D0 pairBody (Some singleTupleSchema) isDependent
     = Inl (RuntimePanic ''index out of range'')"
  by (simp add: pairBody_def singleTupleSchema_def attrSchemaFor_def schemaOf_def
      LiteralTypeOnly_def tokensForLiteralValueExpr_def)

lemma pair_tokens:
  "SemanticTokensInFile D0 (decoderOf pairBody singleTupleSchema) ''test.tf''
     = Inl (RuntimePanic ''index out of range'')"
  by (simp add: SemanticTokensInFile_def decoderOf_file pair_walk del: tokensForBody.simps)


lemma tokensForBody_panics: "tokensForBody D body s isDependent = Inl e \<Longrightarrow> is_panic e"
  using body_result_all [of D body s isDependent] by (simp add: body_result_Inl)

lemma mset_sortTokens [simp]: "mset (sortTokens ts) = mset ts"
  by (simp add: sortTokens_def)

lemma sorted_sortTokens: "sorted (map (\<lambda>t. Byte (Start (st_Range t))) (sortTokens ts))"
  by (simp add: sortTokens_def)



lemma semantic_tokens_return_iff:
  assumes "fileByName d filename = Inr f"
    and "bodyForFileAndPos filename f InitialPos = Inr body"
    and "dec_rootSchema d = Some rootSchema"
  shows "returns (SemanticTokensInFile D d filename) = noPanicBody D body (Some rootSchema)"
  using assms body_returns [of D body "Some rootSchema" False]
  by (cases "tokensForBody D body (Some rootSchema) False")
     (simp_all add: SemanticTokensInFile_def del: tokensForBody.simps noPanicBody.simps)

lemma aws_no_panic: "noPanicBody D0 awsBody (Some (awsSchema (Some instanceTypeSchema)))"
  using body_returns [of D0 awsBody "Some (awsSchema (Some instanceTypeSchema))" False]
  by (simp add: aws_root_tokens del: tokensForBody.simps noPanicBody.simps)


text \<open>
  C4. The semantic tokens of a file never fail with a positional error. An attribute
  with no schema under its name and no schema for any attribute, a block whose type
  the schema does not declare, and a label whose index is beyond the label schemas of
  the block are skipped: the walk goes on with what follows them.
\<close>

theorem tokens_never_positional:
  "SemanticTokensInFile D d filename \<noteq> Inl (PositionalError f p msg)
   \<and> (attrSchemaFor bodySchema name = None \<longrightarrow>
        tokensForAttrs ((name, attr) # attrs) bodySchema isDependent
          = tokensForAttrs attrs bodySchema isDependent)
   \<and> (map_of (bs_Blocks bodySchema) (blk_Type block) = None \<longrightarrow>
        tokensForBlocks D (block # blocks) bodySchema isDependent
          = tokensForBlocks D blocks bodySchema isDependent)
   \<and> (length (bl_Labels blockSchema) \<le> i \<longrightarrow>
        tokensForLabels i (labelRange # labelRanges) blockSchema
          = tokensForLabels (i + 1) labelRanges blockSchema)"
proof -
  have "SemanticTokensInFile D d filename \<noteq> Inl (PositionalError f p msg)"
  proof
    assume a: "SemanticTokensInFile D d filename = Inl (PositionalError f p msg)"
    then obtain fl body rootSchema where
      "tokensForBody D body (Some rootSchema) False = Inl (PositionalError f p msg)"
      by (auto simp: SemanticTokensInFile_def fileByName_def bodyForFileAndPos_def
          split: sum.splits option.splits FileBody.splits simp del: tokensForBody.simps)
    from tokensForBody_panics [OF this] show False by simp
  qed
  then show ?thesis by simp
qed

theorem tokens_never_positional_witness:
  "SemanticTokensInFile D0 (awsDecoder None) ''test.tf'' \<noteq> Inl (PositionalError ''test.tf'' (pos0 0) [])
   \<and> tokensForAttrs [(''a'', emptyAttr)] instanceTypeSchema False = Inr []
   \<and> tokensForBlocks D0 [awsBlock] instanceTypeSchema False = Inr []
   \<and> tokensForLabels 2 [rng0 24 30] (resourceSchema None) = []"
  using tokens_never_positional [of D0 "awsDecoder None" "''test.tf''" "''test.tf''" "pos0 0" "[]"
      instanceTypeSchema "''a''" emptyAttr "[]" False awsBlock "[]" "resourceSchema None" 2
      "rng0 24 30" "[]"]
  by (simp add: instanceTypeSchema_def attrSchemaFor_def awsBlock_def resourceSchema_def)

text \<open>
  C2, as stated, fails: when the own body schema of a block and the matching
  dependent body schema both declare an attribute, that attribute has two
  attribute-name tokens; and for the document \<open>a = [1, 2]\<close> under a schema that declares
  \<open>a\<close> as a tuple of one number no token list is returned, the walk panics.
\<close>

theorem one_token_per_attribute_counterexample:
  "SemanticTokensInFile D0 (awsDecoder (Some instanceTypeSchema)) ''test.tf'' =
     Inr [tokenAt TokenBlockType [] 0 8, tokenAt TokenBlockLabel [TokenModifierDependent] 9 23,
          tokenAt TokenBlockLabel [] 24 30,
          tokenAt TokenAttrName [] 33 46, tokenAt TokenAttrName [TokenModifierDependent] 33 46,
          tokenAt TokenString [] 50 58, tokenAt TokenString [] 50 58]
   \<and> length (body_Attributes awsInner) = 1
   \<and> count_list (map st_Type
        (projr (SemanticTokensInFile D0 (awsDecoder (Some instanceTypeSchema)) ''test.tf'')))
        TokenAttrName = 2
   \<and> SemanticTokensInFile D0 (decoderOf pairBody singleTupleSchema) ''test.tf''
        = Inl (RuntimePanic ''index out of range'')"
  by (simp add: aws_tokens_both tokenAt_def awsInner_def pair_tokens)

text \<open>
  C2, amended. For every loaded document and installed schema that meet the conditions
  under which a walk returns, the semantic tokens of the file are returned, they are sorted
  by the byte offset of the start of their range, and their structural tokens are, as a
  multiset, one attribute-name token for every recognised attribute, one block-type token
  for every recognised block and one label token for every label within the label
  schemas, for every walk of a body: the body of a block is walked against the body
  schema of the block and once more against the dependent body schema when one matches.
  What the schema of a walk does not recognise has no token in that walk.
\<close>

theorem tokens_sorted_one_per_pass:
  assumes "fileByName d filename = Inr f"
    and "bodyForFileAndPos filename f InitialPos = Inr body"
    and "dec_rootSchema d = Some rootSchema"
    and "noPanicBody D body (Some rootSchema)"
  shows "\<exists>tokens. SemanticTokensInFile D d filename = Inr tokens
       \<and> sorted (map (\<lambda>t. Byte (Start (st_Range t))) tokens)
       \<and> mset (map tkey (filter structural tokens)) = mset (spec_bodyTokens D body (Some rootSchema))"
proof -
  from assms(4) body_returns [of D body "Some rootSchema" False]
  obtain ts where ts: "tokensForBody D body (Some rootSchema) False = Inr ts"
    by (auto simp: returns_def simp del: tokensForBody.simps noPanicBody.simps)
  have tokens: "SemanticTokensInFile D d filename = Inr (sortTokens ts)"
    using assms(1-3) ts by (simp add: SemanticTokensInFile_def del: tokensForBody.simps)
  have "map tkey (filter structural ts) = spec_bodyTokens D body (Some rootSchema)"
    using body_result_all [of D body "Some rootSchema" False] ts
    by (simp add: body_result_Inr del: tokensForBody.simps spec_bodyTokens.simps)
  then have "mset (map tkey (filter structural ts)) = mset (spec_bodyTokens D body (Some rootSchema))"
    by simp
  moreover have "mset (map tkey (filter structural (sortTokens ts)))
      = mset (map tkey (filter structural ts))"
    by (simp add: mset_filter)
  ultimately show ?thesis
    using tokens by (simp add: sorted_sortTokens)
qed

theorem tokens_sorted_one_per_pass_witness:
  "SemanticTokensInFile D0 (awsDecoder (Some instanceTypeSchema)) ''test.tf'' =
     Inr [tokenAt TokenBlockType [] 0 8, tokenAt TokenBlockLabel [TokenModifierDependent] 9 23,
          tokenAt TokenBlockLabel [] 24 30,
          tokenAt TokenAttrName [] 33 46, tokenAt TokenAttrName [TokenModifierDependent] 33 46,
          tokenAt TokenString [] 50 58, tokenAt TokenString [] 50 58]
   \<and> mset (spec_bodyTokens D0 awsBody (Some (awsSchema (Some instanceTypeSchema))))
     = {#(TokenBlockType, rng0 0 8), (TokenBlockLabel, rng0 9 23), (TokenBlockLabel, rng0 24 30),
         (TokenAttrName, rng0 33 46), (TokenAttrName, rng0 33 46)#}"
  using tokens_sorted_one_per_pass [OF aws_file(1) aws_file(2) aws_file(3) aws_no_panic]
  by (simp add: aws_tokens_both tokenAt_def tkey_def structural_def)




section \<open>The skeleton text of a compound type\<close>

text \<open>
  The text inserted for a list, set or tuple type opens a sequence construction, and that
  for a map or object type opens a keyed construction; a sequence construction resolves
  against the constraint of a list, set or tuple type, and a keyed construction against
  that of a map or object type.
\<close>

lemma newTextForType_opens:
  "IsListType t \<or> IsSetType t \<or> IsTupleType t \<Longrightarrow> hd (newTextForType t) = CHR ''[''"
  "IsMapType t \<or> IsObjectType t \<Longrightarrow> hd (newTextForType t) = CHR ''{''"
  by (cases t; simp split: list.splits)+

lemma newTextForType_examples:
  "newTextForType (cty_List cty_Number) = ''[ 1 ]''"
  "newTextForType (cty_Object [(''b'', cty_Bool), (''a'', cty_String)])
     = ''{'' @ NL @ ''  a = '' @ DQ @ DQ @ NL @ ''  b = false'' @ NL @ ''}''"
  by (simp_all add: sortedObjectAttrs_def)

lemma hover_accepts_shape:
  "IsListType t \<or> IsSetType t \<or> IsTupleType t \<Longrightarrow>
     hoverContentForExpr X (TupleConsExpr exprs r) [LiteralTypeExpr t]
       = Inr (Markdown (''_'' @ FriendlyName X t @ ''_''))"
  "IsMapType t \<Longrightarrow>
     hoverContentForExpr X (ObjectConsExpr items r) [LiteralTypeExpr t]
       = Inr (Markdown (''_'' @ FriendlyName X t @ ''_''))"
  "IsObjectType t \<Longrightarrow>
     \<exists>c. hoverContentForExpr X (ObjectConsExpr items r) [LiteralTypeExpr t] = Inr c"
  by (cases t; simp add: hoverContentForValueAndType_def)+

text \<open>
  C7. The text inserted for a compound type is meant to be an expression that resolves
  against the constraint it was made from. For the tuple type of a string and a number
  the one candidate has the text of an opening bracket, a line break, two double quotes,
  the digit 1 and a closing bracket: the two members follow each other with no comma
  between them, where the object type puts every member on a line of its own.
\<close>

theorem tuple_skeleton_without_separator:
  "typeToCandidates X (cty_Tuple [cty_String, cty_Number]) editRng =
     Inr [\<lparr>cand_Label = ''[ '' @ FriendlyName X cty_String @ '' , ''
                          @ FriendlyName X cty_Number @ '' ]'',
            cand_Detail = FriendlyName X (cty_Tuple [cty_String, cty_Number]),
            cand_Description = NoMarkup,
            cand_Kind = LiteralValueCandidateKind,
            cand_TextEdit = \<lparr>te_NewText = ''['' @ NL @ DQ @ DQ @ ''1]'',
                              te_Snippet = ''['' @ NL @ DQ @ ''${2:value}'' @ DQ @ ''${3:1}]'',
                              te_Range = editRng\<rparr>\<rparr>]
   \<and> CHR '','' \<notin> set (newTextForType (cty_Tuple [cty_String, cty_Number]))"
  by (simp add: typeToCandidates_def) code_simp

end
